theory Spec2Isabelle
  imports Complex_Main "HOL-Library.Multiset"
begin

section \<open>Numbers and arrays\<close>

text \<open>
  The calibration code of \<^verbatim>\<open>becquerel/core/calibration.py\<close> computes with NumPy
  floats. A float is modelled by its value: a finite one is a real number (rounding is not
  modelled, arithmetic on finite values is exact), and the three special values of IEEE 754
  are kept, because the source tests for them (\<^verbatim>\<open>np.isfinite\<close>) and because its two
  ways of writing an interval test (\<^verbatim>\<open>not np.all(x >= lo)\<close> and
  \<^verbatim>\<open>np.any(x < lo)\<close>) differ exactly on NaN.
\<close>

datatype fl = Fin real | PInf | NInf | NaN

text \<open>The comparisons of IEEE 754: every comparison with NaN is false.\<close>

fun flt :: "fl \<Rightarrow> fl \<Rightarrow> bool" where
  "flt NaN b = False"
| "flt a NaN = False"
| "flt (Fin a) (Fin b) = (a < b)"
| "flt (Fin a) PInf = True"
| "flt (Fin a) NInf = False"
| "flt PInf b = False"
| "flt NInf (Fin b) = True"
| "flt NInf PInf = True"
| "flt NInf NInf = False"

fun feq :: "fl \<Rightarrow> fl \<Rightarrow> bool" where
  "feq NaN b = False"
| "feq a NaN = False"
| "feq a b = (a = b)"

definition fle :: "fl \<Rightarrow> fl \<Rightarrow> bool" where
  "fle a b = (flt a b \<or> feq a b)"

definition fgt :: "fl \<Rightarrow> fl \<Rightarrow> bool" where
  "fgt a b = flt b a"

definition fge :: "fl \<Rightarrow> fl \<Rightarrow> bool" where
  "fge a b = fle b a"

fun isfinite :: "fl \<Rightarrow> bool" where
  "isfinite (Fin a) = True"
| "isfinite a = False"

text \<open>\<^verbatim>\<open>np.maximum\<close> and \<^verbatim>\<open>np.minimum\<close> propagate NaN.\<close>

definition np_maximum :: "fl \<Rightarrow> fl \<Rightarrow> fl" where
  "np_maximum a b = (if a = NaN \<or> b = NaN then NaN else if flt a b then b else a)"

definition np_minimum :: "fl \<Rightarrow> fl \<Rightarrow> fl" where
  "np_minimum a b = (if a = NaN \<or> b = NaN then NaN else if flt b a then b else a)"

text \<open>\<^verbatim>\<open>np.clip(y, lo, hi)\<close> on one element is \<^verbatim>\<open>minimum(maximum(y, lo), hi)\<close>.\<close>

definition np_clip :: "fl \<Rightarrow> fl \<Rightarrow> fl \<Rightarrow> fl" where
  "np_clip lo hi y = np_minimum (np_maximum y lo) hi"

text \<open>Subtraction of floats, as used by the residual of the root finder.\<close>

fun fsub :: "fl \<Rightarrow> fl \<Rightarrow> fl" where
  "fsub NaN b = NaN"
| "fsub a NaN = NaN"
| "fsub (Fin a) (Fin b) = Fin (a - b)"
| "fsub PInf PInf = NaN"
| "fsub NInf NInf = NaN"
| "fsub PInf b = PInf"
| "fsub NInf b = NInf"
| "fsub (Fin a) PInf = NInf"
| "fsub (Fin a) NInf = PInf"

text \<open>
  \<^verbatim>\<open>np.isclose(a, b)\<close> with the default tolerances \<^verbatim>\<open>rtol=1e-05\<close>,
  \<^verbatim>\<open>atol=1e-08\<close> and \<^verbatim>\<open>equal_nan=False\<close>: finite values are compared with
  the tolerance, which is relative to the second argument; an infinity is close only to
  itself; NaN is close to nothing.
\<close>

definition rtol :: real where
  "rtol = 1 / 100000"

definition atol :: real where
  "atol = 1 / 100000000"

fun isclose :: "fl \<Rightarrow> fl \<Rightarrow> bool" where
  "isclose (Fin a) (Fin b) = (\<bar>a - b\<bar> \<le> atol + rtol * \<bar>b\<bar>)"
| "isclose PInf PInf = True"
| "isclose NInf NInf = True"
| "isclose a b = False"

text \<open>
  A value handed to the code is a Python float (\<open>Scalar\<close>) or a one-dimensional array
  (\<open>Vec\<close>). Arrays of two or more dimensions are outside the model; the only checks of
  the source that such inputs alone can reach are the two "must be 1-D" tests on
  calibration points.
\<close>

datatype 'a arr = Scalar 'a | Vec "'a list"

fun elems :: "'a arr \<Rightarrow> 'a list" where
  "elems (Scalar a) = [a]"
| "elems (Vec as) = as"

fun map_arr :: "('a \<Rightarrow> 'b) \<Rightarrow> 'a arr \<Rightarrow> 'b arr" where
  "map_arr f (Scalar a) = Scalar (f a)"
| "map_arr f (Vec as) = Vec (map f as)"

definition np_all :: "('a \<Rightarrow> bool) \<Rightarrow> 'a arr \<Rightarrow> bool" where
  "np_all P x = list_all P (elems x)"

definition np_any :: "('a \<Rightarrow> bool) \<Rightarrow> 'a arr \<Rightarrow> bool" where
  "np_any P x = list_ex P (elems x)"

text \<open>An element of a result of the interpreter: a real float, or a number with a
  non-zero imaginary part.\<close>

datatype pynum = Real fl | Complex

fun isreal :: "pynum \<Rightarrow> bool" where
  "isreal (Real a) = True"
| "isreal Complex = False"

fun real_part :: "pynum \<Rightarrow> fl" where
  "real_part (Real a) = a"
| "real_part Complex = NaN"

section \<open>Errors\<close>

text \<open>
  Every failure the module raises itself is a \<^verbatim>\<open>CalibrationError\<close>, told apart by its
  message; \<open>reason\<close> lists the messages. The other constructors of \<open>error\<close> are the
  Python exceptions that can pass through the module unchanged.
\<close>

datatype reason =
    DomainLength2 | RangeLength2 | DomainNotFinite | RangeNotFinite
  | DomainNotAscending | RangeNotAscending
  | BelowDomain | AboveDomain | BadIndVar | AstevalFailed | ComplexValues
  | BlackFailed | IndVarMissing | IndicesNotExtracted | MinIndexNotZero
  | IndicesNotContiguous | ParamCountMismatch | CannotEvalFloat | CannotEvalArray
  | StartParamsLength nat nat | NotEnoughPoints nat nat | SolverMessage string
  | PointsLengthMismatch nat nat | XOutsideDomain | YOutsideRange
  | ParamsNot1D | OutsideRange | CompareNonCalibration
  | ExpectedDataset string | UnexpectedDatasets "string list"

datatype error =
    CalibrationError reason
  | ValueError
  | TypeError
  | IndexError
  | KeyError
  | AssertionError
  | OtherError string

section \<open>External collaborators\<close>

text \<open>
  The module calls libraries that are not part of the repository. They are parameters of
  the model, gathered in one record:
  \<^item> \<open>black_format_str\<close>: \<^verbatim>\<open>black.format_str\<close>, \<open>None\<close> when it raises
    \<^verbatim>\<open>InvalidInput\<close> or \<^verbatim>\<open>TokenError\<close>;
  \<^item> \<open>ast_names\<close>: the identifiers of the \<^verbatim>\<open>ast.Name\<close> nodes met by
    \<^verbatim>\<open>ast.walk(ast.parse(expression))\<close>;
  \<^item> \<open>safe_eval\<close>: the asteval interpreter, as a function of the expression and of the
    two bindings made before each call (the parameter vector \<^verbatim>\<open>p\<close> and the
    independent variable with its name); it gives the value and the list of recorded
    errors;
  \<^item> \<open>argsort\<close>: \<^verbatim>\<open>np.argsort\<close>;
  \<^item> \<open>least_squares\<close>: \<^verbatim>\<open>scipy.optimize.least_squares\<close>, given the residual
    function and the starting parameters;
  \<^item> \<open>root_scalar\<close>: \<^verbatim>\<open>scipy.optimize.root_scalar(f, x0=x0, bracket=bracket).root\<close>;
  \<^item> \<open>ensure_string\<close>: \<^verbatim>\<open>io.h5.ensure_string\<close>, of the package's HDF5 module, which
    is not among the sources at hand.
  The values drawn by \<^verbatim>\<open>np.random.uniform\<close> are passed to the functions that draw
  them.
\<close>

text \<open>A value read from an HDF5 file, or kept as a metadata attribute: a text or an
  array.\<close>

datatype h5val = H5Str string | H5Arr "fl arr"

record lsq_result =
  success :: bool
  message :: string
  lsq_x :: "fl list"

record ext =
  black_format_str :: "string \<Rightarrow> string option"
  ast_names :: "string \<Rightarrow> string list"
  safe_eval :: "string \<Rightarrow> fl list \<Rightarrow> string \<Rightarrow> fl arr \<Rightarrow> pynum arr \<times> string list"
  argsort :: "fl list \<Rightarrow> nat list"
  least_squares :: "(fl list \<Rightarrow> error + fl list) \<Rightarrow> fl list \<Rightarrow> error + lsq_result"
  root_scalar :: "(fl \<Rightarrow> error + fl arr) \<Rightarrow> fl arr option \<Rightarrow> fl arr \<Rightarrow> error + fl"
  ensure_string :: "h5val \<Rightarrow> error + string"

section \<open>Domain and range\<close>

definition DEFAULT_DOMAIN :: "fl arr" where
  "DEFAULT_DOMAIN = Vec [Fin 0, Fin 100000]"

definition DEFAULT_RANGE :: "fl arr" where
  "DEFAULT_RANGE = Vec [Fin 0, Fin 100000]"

text \<open>
  \<^verbatim>\<open>_validate_domain_range\<close>: a scalar has no \<^verbatim>\<open>len\<close>. \<open>item0\<close> and
  \<open>item1\<close> are \<^verbatim>\<open>domain[0]\<close> and \<^verbatim>\<open>domain[1]\<close>, read only after the length
  has been checked.
\<close>

fun length2 :: "fl arr \<Rightarrow> bool" where
  "length2 (Scalar a) = False"
| "length2 (Vec as) = (length as = 2)"

definition item0 :: "fl arr \<Rightarrow> fl" where
  "item0 d = elems d ! 0"

definition item1 :: "fl arr \<Rightarrow> fl" where
  "item1 d = elems d ! 1"

definition validate_domain_range :: "fl arr \<Rightarrow> fl arr \<Rightarrow> error + unit" where
  "validate_domain_range domain rng =
     (if \<not> length2 domain then Inl (CalibrationError DomainLength2)
      else if \<not> length2 rng then Inl (CalibrationError RangeLength2)
      else if \<not> isfinite (item0 domain) \<or> \<not> isfinite (item1 domain)
        then Inl (CalibrationError DomainNotFinite)
      else if \<not> isfinite (item0 rng) \<or> \<not> isfinite (item1 rng)
        then Inl (CalibrationError RangeNotFinite)
      else if \<not> fgt (item1 domain) (item0 domain) then Inl (CalibrationError DomainNotAscending)
      else if \<not> fgt (item1 rng) (item0 rng) then Inl (CalibrationError RangeNotAscending)
      else Inr ())"

section \<open>Evaluation\<close>

text \<open>
  \<^verbatim>\<open>_eval_expression\<close>: the domain is checked on every element of the input, the
  interpreter is run, and the result is clipped to the range.
\<close>

definition eval_expression ::
  "ext \<Rightarrow> string \<Rightarrow> fl list \<Rightarrow> fl arr \<Rightarrow> string \<Rightarrow> fl arr \<Rightarrow> fl arr \<Rightarrow> error + fl arr" where
  "eval_expression E expression params x ind_var domain rng =
     (case validate_domain_range domain rng of
        Inl e \<Rightarrow> Inl e
      | Inr u \<Rightarrow>
          if \<not> np_all (\<lambda>v. fge v (item0 domain)) x then Inl (CalibrationError BelowDomain)
          else if \<not> np_all (\<lambda>v. fle v (item1 domain)) x then Inl (CalibrationError AboveDomain)
          else if ind_var \<notin> set [''x'', ''y''] then Inl (CalibrationError BadIndVar)
          else
            (case safe_eval E expression params ind_var x of
               (y, errs) \<Rightarrow>
                 if errs \<noteq> [] then Inl (CalibrationError AstevalFailed)
                 else if \<not> np_all isreal y then Inl (CalibrationError ComplexValues)
                 else Inr (map_arr (\<lambda>v. np_clip (item0 rng) (item1 rng) (real_part v)) y)))"

text \<open>
  What "clipped into the interval from \<open>l\<close> to \<open>h\<close>" says of a raw value \<open>r\<close> and
  the value \<open>v\<close> returned for it: a raw value above the interval gives exactly \<open>h\<close>, one
  below gives exactly \<open>l\<close>, one inside is returned as it is, and the returned value lies
  in the interval whenever the raw value is a number.
\<close>

definition clipped_to :: "fl \<Rightarrow> fl \<Rightarrow> fl \<Rightarrow> fl \<Rightarrow> bool" where
  "clipped_to l h r v =
     ((flt h r \<longrightarrow> v = h) \<and> (flt r l \<longrightarrow> v = l) \<and> (fle l r \<and> fle r h \<longrightarrow> v = r) \<and>
      (r \<noteq> NaN \<longrightarrow> fle l v \<and> fle v h))"

section \<open>Parameter indices\<close>

text \<open>
  Python's \<^verbatim>\<open>str.split(sep)\<close> for a non-empty separator: the text is cut at every
  occurrence of the separator, found from left to right without overlap.
\<close>

function split_acc :: "string \<Rightarrow> string \<Rightarrow> string \<Rightarrow> string list" where
  "split_acc sep acc [] = [rev acc]"
| "split_acc sep acc (c # cs) =
     (if sep \<noteq> [] \<and> take (length sep) (c # cs) = sep
      then rev acc # split_acc sep [] (drop (length sep) (c # cs))
      else split_acc sep (c # acc) cs)"
  by pat_completeness auto
termination
  by (relation "measure (\<lambda>(sep, acc, s). length s)") auto

definition str_split :: "string \<Rightarrow> string \<Rightarrow> string list" where
  "str_split sep s = split_acc sep [] s"

text \<open>
  The characters Python treats as white space, among the ASCII ones. Characters are
  bytes here; white space and digits beyond ASCII are not modelled.
\<close>

definition is_space :: "char \<Rightarrow> bool" where
  "is_space c = (c \<in> set [CHR 0x09, CHR 0x0A, CHR 0x0B, CHR 0x0C, CHR 0x0D,
                           CHR 0x1C, CHR 0x1D, CHR 0x1E, CHR 0x1F, CHR 0x20])"

definition str_strip :: "string \<Rightarrow> string" where
  "str_strip s = rev (dropWhile is_space (rev (dropWhile is_space s)))"

definition is_digit :: "char \<Rightarrow> bool" where
  "is_digit c = (c \<in> set ''0123456789'')"

definition digit_val :: "char \<Rightarrow> nat" where
  "digit_val c = (of_char c :: nat) - 48"

text \<open>
  Python's \<^verbatim>\<open>int(text)\<close>: surrounding white space, one optional sign, then digits,
  where single underscores may stand between digits. \<open>None\<close> is \<^verbatim>\<open>ValueError\<close>.
\<close>

fun int_digits :: "string \<Rightarrow> nat \<Rightarrow> nat option" where
  "int_digits [] n = Some n"
| "int_digits [c] n = (if is_digit c then Some (10 * n + digit_val c) else None)"
| "int_digits (c # d # cs) n =
     (if is_digit c then int_digits (d # cs) (10 * n + digit_val c)
      else if c = CHR ''_'' \<and> is_digit d then int_digits cs (10 * n + digit_val d)
      else None)"

fun int_unsigned :: "string \<Rightarrow> nat option" where
  "int_unsigned [] = None"
| "int_unsigned (c # cs) = (if is_digit c then int_digits cs (digit_val c) else None)"

definition py_int :: "string \<Rightarrow> int option" where
  "py_int s =
     (case str_strip s of
        [] \<Rightarrow> None
      | c # cs \<Rightarrow>
          if c = CHR ''-'' then map_option (\<lambda>n. - int n) (int_unsigned cs)
          else if c = CHR ''+'' then map_option int (int_unsigned cs)
          else map_option int (int_unsigned (c # cs)))"

text \<open>\<^verbatim>\<open>token.split("]")[0]\<close>: a split is never empty.\<close>

definition before_bracket :: "string \<Rightarrow> string" where
  "before_bracket token = (case str_split '']'' token of [] \<Rightarrow> [] | t # ts \<Rightarrow> t)"

text \<open>The list comprehension of \<^verbatim>\<open>_param_indices\<close> stops at the first token that is
  not an integer.\<close>

fun ints_of_tokens :: "string list \<Rightarrow> error + int list" where
  "ints_of_tokens [] = Inr []"
| "ints_of_tokens (t # ts) =
     (case py_int (before_bracket t) of
        None \<Rightarrow> Inl ValueError
      | Some i \<Rightarrow> (case ints_of_tokens ts of Inl e \<Rightarrow> Inl e | Inr is \<Rightarrow> Inr (i # is)))"

text \<open>
  \<^verbatim>\<open>_param_indices\<close>: the integers that follow each \<^verbatim>\<open>p[\<close> of the text, without
  repetition and in ascending order (\<^verbatim>\<open>sorted(np.unique(...))\<close>). Indices are unbounded
  integers; NumPy's treatment of integers beyond 64 bits is not modelled.
\<close>

definition param_indices :: "string \<Rightarrow> error + int list" where
  "param_indices expression =
     (case ints_of_tokens (tl (str_split ''p['' expression)) of
        Inl e \<Rightarrow> Inl e
      | Inr is \<Rightarrow> Inr (sort (remdups is)))"

section \<open>Validation of an expression\<close>

fun np_min :: "int \<Rightarrow> int list \<Rightarrow> int" where
  "np_min m [] = m"
| "np_min m (i # is) = np_min (min m i) is"

fun np_diff :: "int list \<Rightarrow> int list" where
  "np_diff (a # b # is) = (b - a) # np_diff (b # is)"
| "np_diff is = []"

text \<open>\<^verbatim>\<open>np.allclose(np.diff(param_indices), 1)\<close>.\<close>

definition diffs_close_to_1 :: "int list \<Rightarrow> bool" where
  "diffs_close_to_1 is = list_all (\<lambda>d. isclose (Fin (real_of_int d)) (Fin 1)) (np_diff is)"

text \<open>
  \<^verbatim>\<open>_validate_expression\<close>. \<open>params = None\<close> skips the count check and the two trial
  evaluations. \<open>draw\<close> holds the two values drawn from the domain: the float and the
  array of five. As in the source, the trial evaluations do not pass the domain and the
  range on, so that they run under the default ones.
\<close>

definition indices_check :: "int list \<Rightarrow> error + unit" where
  "indices_check is =
     (case is of
        [] \<Rightarrow> Inr ()
      | i # js \<Rightarrow>
          if np_min i js \<noteq> 0 then Inl (CalibrationError MinIndexNotZero)
          else if \<not> diffs_close_to_1 is then Inl (CalibrationError IndicesNotContiguous)
          else Inr ())"

definition trial_evaluations ::
  "ext \<Rightarrow> string \<Rightarrow> fl list \<Rightarrow> string \<Rightarrow> fl \<times> fl list \<Rightarrow> error + unit" where
  "trial_evaluations E expression params ind_var draw =
     (case eval_expression E expression params (Scalar (fst draw)) ind_var
             DEFAULT_DOMAIN DEFAULT_RANGE of
        Inl (CalibrationError r) \<Rightarrow> Inl (CalibrationError CannotEvalFloat)
      | Inl e \<Rightarrow> Inl e
      | Inr y \<Rightarrow>
          (case eval_expression E expression params (Vec (snd draw)) ind_var
                  DEFAULT_DOMAIN DEFAULT_RANGE of
             Inl (CalibrationError r) \<Rightarrow> Inl (CalibrationError CannotEvalArray)
           | Inl e \<Rightarrow> Inl e
           | Inr y' \<Rightarrow> Inr ()))"

definition validate_expression ::
  "ext \<Rightarrow> string \<Rightarrow> fl list option \<Rightarrow> string \<Rightarrow> fl arr \<Rightarrow> fl arr \<Rightarrow> fl \<times> fl list
     \<Rightarrow> error + string" where
  "validate_expression E expression params ind_var domain rng draw =
     (case validate_domain_range domain rng of
        Inl e \<Rightarrow> Inl e
      | Inr u \<Rightarrow>
     (case black_format_str E expression of
        None \<Rightarrow> Inl (CalibrationError BlackFailed)
      | Some formatted \<Rightarrow>
          if ind_var \<notin> set [''x'', ''y''] then Inl (CalibrationError BadIndVar)
          else if ind_var \<notin> set (ast_names E formatted)
            then Inl (CalibrationError IndVarMissing)
          else
     (case param_indices formatted of
        Inl e \<Rightarrow> Inl (CalibrationError IndicesNotExtracted)
      | Inr is \<Rightarrow>
     (case indices_check is of
        Inl e \<Rightarrow> Inl e
      | Inr u' \<Rightarrow>
     (case params of
        None \<Rightarrow> Inr (str_strip formatted)
      | Some ps \<Rightarrow>
          if length is \<noteq> length ps then Inl (CalibrationError ParamCountMismatch)
          else
            (case trial_evaluations E formatted ps ind_var draw of
               Inl e \<Rightarrow> Inl e
             | Inr u'' \<Rightarrow> Inr (str_strip formatted)))))))"

section \<open>Calibration points\<close>

text \<open>
  \<^verbatim>\<open>domain[0]\<close> and \<^verbatim>\<open>domain[1]\<close> where the length has not been checked before: a
  float cannot be indexed, and an index beyond the end raises.
\<close>

fun bounds :: "fl arr \<Rightarrow> error + fl \<times> fl" where
  "bounds (Scalar a) = Inl TypeError"
| "bounds (Vec as) = (if 2 \<le> length as then Inr (as ! 0, as ! 1) else Inl IndexError)"

text \<open>\<^verbatim>\<open>np.atleast_1d\<close> of an argument that may be \<^verbatim>\<open>None\<close>.\<close>

fun atleast_1d :: "fl arr option \<Rightarrow> fl list" where
  "atleast_1d None = []"
| "atleast_1d (Some a) = elems a"

text \<open>\<^verbatim>\<open>a[i]\<close> for an array of indices \<open>i\<close>: an index beyond the end raises.\<close>

definition take_indices :: "'a list \<Rightarrow> nat list \<Rightarrow> error + 'a list" where
  "take_indices as is =
     (if list_all (\<lambda>i. i < length as) is then Inr (map (\<lambda>i. as ! i) is) else Inl IndexError)"

text \<open>
  \<^verbatim>\<open>_check_points\<close>: both arrays are put in the order \<^verbatim>\<open>np.argsort\<close> gives for the
  x values, then tested against the domain and the range. The test is written as in the
  source, "some value is below the lower bound or above the upper bound".
\<close>

definition outside :: "fl \<Rightarrow> fl \<Rightarrow> fl \<Rightarrow> bool" where
  "outside l h v = (flt v l \<or> flt h v)"

definition check_points ::
  "ext \<Rightarrow> fl arr option \<Rightarrow> fl arr option \<Rightarrow> fl arr \<Rightarrow> fl arr \<Rightarrow> error + fl list \<times> fl list" where
  "check_points E px py domain rng =
     (let xs = atleast_1d px; ys = atleast_1d py in
      if length xs \<noteq> length ys
        then Inl (CalibrationError (PointsLengthMismatch (length xs) (length ys)))
      else
        (case take_indices xs (argsort E xs) of
           Inl e \<Rightarrow> Inl e
         | Inr xs' \<Rightarrow>
        (case take_indices ys (argsort E xs) of
           Inl e \<Rightarrow> Inl e
         | Inr ys' \<Rightarrow>
        (case bounds domain of
           Inl e \<Rightarrow> Inl e
         | Inr (dl, dh) \<Rightarrow>
            if list_ex (outside dl dh) xs' then Inl (CalibrationError XOutsideDomain)
            else
        (case bounds rng of
           Inl e \<Rightarrow> Inl e
         | Inr (rl, rh) \<Rightarrow>
            if list_ex (outside rl rh) ys' then Inl (CalibrationError YOutsideRange)
            else Inr (xs', ys'))))))"

section \<open>Fitting\<close>

text \<open>NumPy's broadcasting of a binary operation over floats and one-dimensional arrays.\<close>

fun broadcast2 :: "('a \<Rightarrow> 'b \<Rightarrow> 'c) \<Rightarrow> 'a arr \<Rightarrow> 'b arr \<Rightarrow> error + 'c arr" where
  "broadcast2 f (Scalar a) (Scalar b) = Inr (Scalar (f a b))"
| "broadcast2 f (Scalar a) (Vec bs) = Inr (Vec (map (f a) bs))"
| "broadcast2 f (Vec as) (Scalar b) = Inr (Vec (map (\<lambda>a. f a b) as))"
| "broadcast2 f (Vec as) (Vec bs) =
     (if length as = length bs then Inr (Vec (map (\<lambda>(a, b). f a b) (zip as bs)))
      else if length as = 1 then Inr (Vec (map (f (as ! 0)) bs))
      else if length bs = 1 then Inr (Vec (map (\<lambda>a. f a (bs ! 0)) as))
      else Inl ValueError)"

definition np_allclose :: "fl arr \<Rightarrow> fl arr \<Rightarrow> error + bool" where
  "np_allclose a b =
     (case broadcast2 isclose a b of Inl e \<Rightarrow> Inl e | Inr r \<Rightarrow> Inr (np_all (\<lambda>t. t) r))"

text \<open>The draw handed to a validation that makes no trial evaluation.\<close>

definition no_draw :: "fl \<times> fl list" where
  "no_draw = (NaN, [])"

text \<open>
  The residual function of \<^verbatim>\<open>_fit_expression\<close>: \<^verbatim>\<open>ys - f(p, xs)\<close>, evaluated
  under the default domain and range.
\<close>

definition residuals :: "ext \<Rightarrow> string \<Rightarrow> fl list \<Rightarrow> fl list \<Rightarrow> fl list \<Rightarrow> error + fl list" where
  "residuals E e xs ys p =
     (case eval_expression E e p (Vec xs) ''x'' DEFAULT_DOMAIN DEFAULT_RANGE of
        Inl err \<Rightarrow> Inl err
      | Inr fs \<Rightarrow>
          (case broadcast2 fsub (Vec ys) fs of Inl err \<Rightarrow> Inl err | Inr r \<Rightarrow> Inr (elems r)))"

text \<open>
  \<^verbatim>\<open>_fit_expression\<close>. \<open>draw\<close> is the draw of the second validation, the one that
  knows the starting parameters.
\<close>

definition fit_expression ::
  "ext \<Rightarrow> string \<Rightarrow> fl arr option \<Rightarrow> fl arr option \<Rightarrow> fl arr option \<Rightarrow> fl arr \<Rightarrow> fl arr
     \<Rightarrow> fl \<times> fl list \<Rightarrow> error + fl list" where
  "fit_expression E e px py params0 domain rng draw =
     (case validate_expression E e None ''x'' domain rng no_draw of
        Inl err \<Rightarrow> Inl err
      | Inr e1 \<Rightarrow>
     (case check_points E px py domain rng of
        Inl err \<Rightarrow> Inl err
      | Inr (xs, ys) \<Rightarrow>
     (case param_indices e1 of
        Inl err \<Rightarrow> Inl err
      | Inr is \<Rightarrow>
          let n_params = length is;
              p0 = (case params0 of None \<Rightarrow> replicate n_params (Fin 1) | Some a \<Rightarrow> elems a)
          in
          if length p0 \<noteq> n_params
            then Inl (CalibrationError (StartParamsLength (length p0) n_params))
          else
     (case validate_expression E e1 (Some p0) ''x'' DEFAULT_DOMAIN DEFAULT_RANGE draw of
        Inl err \<Rightarrow> Inl err
      | Inr e2 \<Rightarrow>
          if length xs < n_params
            then Inl (CalibrationError (NotEnoughPoints n_params (length xs)))
          else if n_params = 0 then Inr []
          else
            (case least_squares E (residuals E e2 xs ys) p0 of
               Inl err \<Rightarrow> Inl err
             | Inr results \<Rightarrow>
                 if \<not> success results then Inl (CalibrationError (SolverMessage (message results)))
                 else Inr (lsq_x results))))))"

section \<open>The Calibration class\<close>

text \<open>
  The fields are the private attributes behind the properties of the class; \<open>range_c\<close>
  is \<^verbatim>\<open>_range\<close>. \<open>attrs\<close> is a dictionary, kept as an association list.
\<close>

record calibration =
  expression :: string
  params :: "fl list"
  inv_expression :: "string option"
  domain :: "fl arr"
  range_c :: "fl arr"
  attrs :: "(string \<times> h5val) list"
  points_x :: "fl list"
  points_y :: "fl list"

text \<open>
  A method that may raise returns its outcome together with the object as the method
  leaves it: an exception does not undo the assignments made before it.
\<close>

type_synonym 'a outcome = "(error + 'a) \<times> calibration"

subsection \<open>Property setters\<close>

definition set_expression :: "ext \<Rightarrow> string \<Rightarrow> calibration \<Rightarrow> unit outcome" where
  "set_expression E e c =
     (case validate_expression E e None ''x'' DEFAULT_DOMAIN DEFAULT_RANGE no_draw of
        Inl err \<Rightarrow> (Inl err, c)
      | Inr e' \<Rightarrow> (Inr (), c\<lparr>expression := e'\<rparr>))"

text \<open>\<^verbatim>\<open>np.array(p)\<close> of a float has no dimension.\<close>

definition set_params :: "ext \<Rightarrow> fl arr \<Rightarrow> fl \<times> fl list \<Rightarrow> calibration \<Rightarrow> unit outcome" where
  "set_params E p draw c =
     (case p of
        Scalar a \<Rightarrow> (Inl (CalibrationError ParamsNot1D), c)
      | Vec ps \<Rightarrow>
          (case validate_expression E (expression c) (Some ps) ''x''
                  DEFAULT_DOMAIN DEFAULT_RANGE draw of
             Inl err \<Rightarrow> (Inl err, c)
           | Inr e' \<Rightarrow> (Inr (), c\<lparr>params := ps\<rparr>)))"

definition set_inv_expression :: "ext \<Rightarrow> string option \<Rightarrow> calibration \<Rightarrow> unit outcome" where
  "set_inv_expression E ie c =
     (case ie of
        None \<Rightarrow> (Inr (), c\<lparr>inv_expression := None\<rparr>)
      | Some e \<Rightarrow>
          (case validate_expression E e None ''y'' DEFAULT_DOMAIN DEFAULT_RANGE no_draw of
             Inl err \<Rightarrow> (Inl err, c)
           | Inr e' \<Rightarrow> (Inr (), c\<lparr>inv_expression := Some e'\<rparr>)))"

definition set_domain :: "fl arr \<Rightarrow> calibration \<Rightarrow> unit outcome" where
  "set_domain d c =
     (case validate_domain_range d (Vec [Fin 0, Fin 1]) of
        Inl err \<Rightarrow> (Inl err, c)
      | Inr u \<Rightarrow> (Inr (), c\<lparr>domain := d\<rparr>))"

definition set_range :: "fl arr \<Rightarrow> calibration \<Rightarrow> unit outcome" where
  "set_range r c =
     (case validate_domain_range (Vec [Fin 0, Fin 1]) r of
        Inl err \<Rightarrow> (Inl err, c)
      | Inr u \<Rightarrow> (Inr (), c\<lparr>range_c := r\<rparr>))"

definition set_attrs :: "(string \<times> h5val) list \<Rightarrow> calibration \<Rightarrow> unit outcome" where
  "set_attrs a c = (Inr (), c\<lparr>attrs := a\<rparr>)"

subsection \<open>Point management\<close>

text \<open>
  \<^verbatim>\<open>add_points\<close>: the new points are checked, appended to the stored ones, and the
  whole is checked and sorted again.
\<close>

definition add_points :: "ext \<Rightarrow> fl arr option \<Rightarrow> fl arr option \<Rightarrow> calibration \<Rightarrow> unit outcome" where
  "add_points E px py c =
     (case check_points E px py (domain c) (range_c c) of
        Inl err \<Rightarrow> (Inl err, c)
      | Inr (xs, ys) \<Rightarrow>
          let c1 = c\<lparr>points_x := points_x c @ xs, points_y := points_y c @ ys\<rparr> in
          (case check_points E (Some (Vec (points_x c1))) (Some (Vec (points_y c1)))
                  (domain c) (range_c c) of
             Inl err \<Rightarrow> (Inl err, c1)
           | Inr (xs', ys') \<Rightarrow> (Inr (), c1\<lparr>points_x := xs', points_y := ys'\<rparr>)))"

definition set_points :: "ext \<Rightarrow> fl arr option \<Rightarrow> fl arr option \<Rightarrow> calibration \<Rightarrow> unit outcome" where
  "set_points E px py c = add_points E px py (c\<lparr>points_x := [], points_y := []\<rparr>)"

text \<open>
  The store as a successful \<^verbatim>\<open>add_points\<close> leaves it under the current domain and
  range: as many x as y values, and no value below the lower or above the upper bound.
\<close>

definition valid_store :: "calibration \<Rightarrow> bool" where
  "valid_store c =
     (length (points_x c) = length (points_y c) \<and>
      \<not> list_ex (outside (item0 (domain c)) (item1 (domain c))) (points_x c) \<and>
      \<not> list_ex (outside (item0 (range_c c)) (item1 (range_c c))) (points_y c))"

subsection \<open>Construction\<close>

text \<open>Running one step after another; the first exception ends the run.\<close>

definition and_then :: "unit outcome \<Rightarrow> (calibration \<Rightarrow> unit outcome) \<Rightarrow> unit outcome" where
  "and_then r f = (case r of (Inl err, c) \<Rightarrow> (Inl err, c) | (Inr u, c) \<Rightarrow> f c)"

text \<open>
  The object before \<^verbatim>\<open>__init__\<close> has assigned anything. No step of the constructor reads
  a field before the constructor has set it.
\<close>

definition blank :: calibration where
  "blank = \<lparr>expression = [], params = [], inv_expression = None, domain = Vec [],
            range_c = Vec [], attrs = [], points_x = [], points_y = []\<rparr>"

text \<open>
  \<^verbatim>\<open>Calibration.__init__\<close>. An exception in the constructor leaves the caller
  without an object.
\<close>

definition Calibration_init ::
  "ext \<Rightarrow> string \<Rightarrow> fl arr \<Rightarrow> string option \<Rightarrow> fl arr \<Rightarrow> fl arr \<Rightarrow> (string \<times> h5val) list
     \<Rightarrow> fl \<times> fl list \<Rightarrow> error + calibration" where
  "Calibration_init E e p ie d r a draw =
     (case and_then (and_then (and_then (and_then (and_then (and_then
             (set_expression E e blank)
             (set_params E p draw))
             (set_inv_expression E ie))
             (set_domain d))
             (set_range r))
             (set_attrs a))
             (set_points E None None) of
        (Inl err, c) \<Rightarrow> Inl err
      | (Inr u, c) \<Rightarrow> Inr c)"

subsection \<open>Equality\<close>

text \<open>The right operand of \<^verbatim>\<open>==\<close> may be any Python object.\<close>

datatype pyobj = PyNone | PyFloat fl | PyStr string | PyCalibration calibration

text \<open>\<^verbatim>\<open>isinstance(other, Calibration)\<close>.\<close>

fun isinstance_Calibration :: "pyobj \<Rightarrow> bool" where
  "isinstance_Calibration (PyCalibration d) = True"
| "isinstance_Calibration other = False"

definition Calibration_eq :: "calibration \<Rightarrow> pyobj \<Rightarrow> error + bool" where
  "Calibration_eq c other =
     (if \<not> isinstance_Calibration other then Inl (CalibrationError CompareNonCalibration)
      else
        (case other of
           PyCalibration d \<Rightarrow>
             if length (params c) \<noteq> length (params d) then Inr False
             else if expression c = expression d
               then np_allclose (Vec (params c)) (Vec (params d))
             else Inr False
         | _ \<Rightarrow> Inl TypeError))"

subsection \<open>Evaluation and inversion\<close>

definition Calibration_call :: "ext \<Rightarrow> calibration \<Rightarrow> fl arr \<Rightarrow> error + fl arr" where
  "Calibration_call E c x =
     eval_expression E (expression c) (params c) x ''x'' (domain c) (range_c c)"

text \<open>The function handed to the root finder: \<^verbatim>\<open>lambda _x: self(_x) - y\<close>.\<close>

definition shifted :: "ext \<Rightarrow> calibration \<Rightarrow> fl \<Rightarrow> fl \<Rightarrow> error + fl arr" where
  "shifted E c y x =
     (case Calibration_call E c (Scalar x) of
        Inl err \<Rightarrow> Inl err
      | Inr v \<Rightarrow> Inr (map_arr (\<lambda>t. fsub t y) v))"

text \<open>\<^verbatim>\<open>x0[j]\<close> on \<^verbatim>\<open>np.asarray(x0)\<close>.\<close>

fun x0_item :: "fl arr option \<Rightarrow> nat \<Rightarrow> error + fl arr option" where
  "x0_item None j = Inr None"
| "x0_item (Some (Scalar a)) j = Inl IndexError"
| "x0_item (Some (Vec as)) j = (if j < length as then Inr (Some (Scalar (as ! j))) else Inl IndexError)"

text \<open>The loop over the elements of \<open>y\<close>, from index \<open>j\<close> on.\<close>

fun roots_from ::
  "ext \<Rightarrow> calibration \<Rightarrow> fl arr option \<Rightarrow> nat \<Rightarrow> fl list \<Rightarrow> error + fl list" where
  "roots_from E c x0 j [] = Inr []"
| "roots_from E c x0 j (y # ys) =
     (case x0_item x0 j of
        Inl err \<Rightarrow> Inl err
      | Inr x0j \<Rightarrow>
     (case root_scalar E (shifted E c y) x0j (domain c) of
        Inl err \<Rightarrow> Inl err
      | Inr rt \<Rightarrow>
     (case roots_from E c x0 (Suc j) ys of
        Inl err \<Rightarrow> Inl err
      | Inr rts \<Rightarrow> Inr (rt # rts))))"

text \<open>
  \<^verbatim>\<open>Calibration.inverse\<close>. A \<open>Scalar\<close> is a Python float, for which
  \<^verbatim>\<open>isinstance(y, float)\<close> holds. The closing \<^verbatim>\<open>assert\<close> is modelled as always
  executed.
\<close>

definition inverse_x :: "ext \<Rightarrow> calibration \<Rightarrow> fl arr \<Rightarrow> fl arr option \<Rightarrow> error + fl arr" where
  "inverse_x E c y x0 =
     (case inv_expression c of
        None \<Rightarrow>
          (case y of
             Scalar yv \<Rightarrow>
               (case root_scalar E (shifted E c yv) x0 (domain c) of
                  Inl err \<Rightarrow> Inl err
                | Inr rt \<Rightarrow> Inr (Scalar rt))
           | Vec ys \<Rightarrow>
               (case roots_from E c x0 0 ys of
                  Inl err \<Rightarrow> Inl err
                | Inr rts \<Rightarrow> Inr (Vec rts)))
      | Some ie \<Rightarrow> eval_expression E ie (params c) y ''y'' (range_c c) (domain c))"

definition Calibration_inverse :: "ext \<Rightarrow> calibration \<Rightarrow> fl arr \<Rightarrow> fl arr option \<Rightarrow> error + fl arr" where
  "Calibration_inverse E c y x0 =
     (if np_any (outside (item0 (range_c c)) (item1 (range_c c))) y
        then Inl (CalibrationError OutsideRange)
      else
        (case inverse_x E c y x0 of
           Inl err \<Rightarrow> Inl err
         | Inr x \<Rightarrow>
             (case Calibration_call E c x of
                Inl err \<Rightarrow> Inl err
              | Inr v \<Rightarrow>
                  (case np_allclose v y of
                     Inl err \<Rightarrow> Inl err
                   | Inr close \<Rightarrow> if close then Inr x else Inl AssertionError))))"

subsection \<open>Fitting the stored points\<close>

text \<open>
  \<^verbatim>\<open>Calibration.fit\<close>: \<open>draw1\<close> is drawn by \<^verbatim>\<open>_fit_expression\<close>, \<open>draw2\<close> by the
  setter of the parameters.
\<close>

definition fit :: "ext \<Rightarrow> fl \<times> fl list \<Rightarrow> fl \<times> fl list \<Rightarrow> calibration \<Rightarrow> unit outcome" where
  "fit E draw1 draw2 c =
     (case fit_expression E (expression c) (Some (Vec (points_x c))) (Some (Vec (points_y c)))
             (Some (Vec (params c))) (domain c) (range_c c) draw1 of
        Inl err \<Rightarrow> (Inl err, c)
      | Inr ps \<Rightarrow> set_params E (Vec ps) draw2 c)"

subsection \<open>Reading from a file\<close>

text \<open>\<^verbatim>\<open>d[key]\<close> on a dictionary.\<close>

definition getitem :: "(string \<times> 'v) list \<Rightarrow> string \<Rightarrow> error + 'v" where
  "getitem d k = (case map_of d k of None \<Rightarrow> Inl KeyError | Some v \<Rightarrow> Inr v)"

definition known_datasets :: "string list" where
  "known_datasets = [''expression'', ''params'', ''inv_expression'', ''domain'', ''range'',
                     ''points_x'', ''points_y'']"

text \<open>
  A dataset handed on where the class expects numbers. The numeric datasets of a file are
  arrays; for a text in their place only the fact that the construction fails is modelled.
\<close>

fun as_array :: "h5val \<Rightarrow> error + fl arr" where
  "as_array (H5Arr a) = Inr a"
| "as_array (H5Str t) = Inl TypeError"

text \<open>
  The call \<^verbatim>\<open>cls(expr, params, inv_expression=..., domain=..., range=..., **attrs)\<close> of
  \<^verbatim>\<open>Calibration.read\<close>, against the signature
  \<^verbatim>\<open>__init__(self, expression, params, inv_expression=None, domain=..., rng=..., **attrs)\<close>.
  Python refuses a keyword given twice. The constructor has no parameter named
  \<^verbatim>\<open>range\<close>: that keyword is collected into \<^verbatim>\<open>**attrs\<close>, and \<^verbatim>\<open>rng\<close> keeps
  its default unless the file's attributes hold a key \<^verbatim>\<open>rng\<close>.
\<close>

definition bound_twice :: "string list" where
  "bound_twice = [''self'', ''expression'', ''params'', ''inv_expression'', ''domain'', ''range'']"

definition read_call ::
  "ext \<Rightarrow> string \<Rightarrow> h5val \<Rightarrow> string option \<Rightarrow> h5val \<Rightarrow> h5val \<Rightarrow> (string \<times> h5val) list
     \<Rightarrow> fl \<times> fl list \<Rightarrow> error + calibration" where
  "read_call E expr ps_ds inv_expr domain_ds range_ds file_attrs draw =
     (if list_ex (\<lambda>k. k \<in> set bound_twice) (map fst file_attrs) then Inl TypeError
      else
        let rng = (case map_of file_attrs ''rng'' of None \<Rightarrow> H5Arr DEFAULT_RANGE | Some v \<Rightarrow> v);
            kwargs = (''range'', range_ds) # filter (\<lambda>kv. fst kv \<noteq> ''rng'') file_attrs
        in
        (case as_array ps_ds of Inl err \<Rightarrow> Inl err | Inr p \<Rightarrow>
        (case as_array domain_ds of Inl err \<Rightarrow> Inl err | Inr d \<Rightarrow>
        (case as_array rng of Inl err \<Rightarrow> Inl err | Inr r \<Rightarrow>
           Calibration_init E expr p inv_expr d r kwargs draw))))"

text \<open>
  \<^verbatim>\<open>Calibration.read\<close>, from what \<^verbatim>\<open>io.h5.read_h5\<close> returned: the datasets and the
  attributes of the file.
\<close>

definition Calibration_read ::
  "ext \<Rightarrow> (string \<times> h5val) list \<Rightarrow> (string \<times> h5val) list \<Rightarrow> fl \<times> fl list
     \<Rightarrow> error + calibration" where
  "Calibration_read E dsets file_attrs draw =
     (let names = map fst dsets in
      if ''params'' \<notin> set names then Inl (CalibrationError (ExpectedDataset ''params''))
      else if ''expression'' \<notin> set names
        then Inl (CalibrationError (ExpectedDataset ''expression''))
      else if ''domain'' \<notin> set names then Inl (CalibrationError (ExpectedDataset ''domain''))
      else if ''range'' \<notin> set names then Inl (CalibrationError (ExpectedDataset ''range''))
      else if filter (\<lambda>k. k \<notin> set known_datasets) names \<noteq> []
        then Inl (CalibrationError
                    (UnexpectedDatasets (filter (\<lambda>k. k \<notin> set known_datasets) names)))
      else
     (case getitem dsets ''expression'' of Inl err \<Rightarrow> Inl err | Inr e_ds \<Rightarrow>
     (case ensure_string E e_ds of Inl err \<Rightarrow> Inl err | Inr expr \<Rightarrow>
     (case (case map_of dsets ''inv_expression'' of
              None \<Rightarrow> Inr None
            | Some i_ds \<Rightarrow> map_sum (\<lambda>err. err) Some (ensure_string E i_ds)) of
        Inl err \<Rightarrow> Inl err | Inr inv_expr \<Rightarrow>
     (case getitem dsets ''params'' of Inl err \<Rightarrow> Inl err | Inr ps_ds \<Rightarrow>
     (case getitem dsets ''domain'' of Inl err \<Rightarrow> Inl err | Inr domain_ds \<Rightarrow>
     (case getitem dsets ''range'' of Inl err \<Rightarrow> Inl err | Inr range_ds \<Rightarrow>
     (case read_call E expr ps_ds inv_expr domain_ds range_ds file_attrs draw of
        Inl err \<Rightarrow> Inl err
      | Inr cal \<Rightarrow>
          if ''points_x'' \<in> set names \<and> ''points_y'' \<in> set names then
            (case getitem dsets ''points_x'' of Inl err \<Rightarrow> Inl err | Inr x_ds \<Rightarrow>
            (case getitem dsets ''points_y'' of Inl err \<Rightarrow> Inl err | Inr y_ds \<Rightarrow>
            (case as_array x_ds of Inl err \<Rightarrow> Inl err | Inr px \<Rightarrow>
            (case as_array y_ds of Inl err \<Rightarrow> Inl err | Inr py \<Rightarrow>
            (case set_points E (Some px) (Some py) cal of
               (Inl err, c) \<Rightarrow> Inl err
             | (Inr u, c) \<Rightarrow> Inr c)))))
          else Inr cal))))))))"

section \<open>A sample environment\<close>

text \<open>
  Closed instances of the theorems below need the collaborators at concrete inputs. The
  sample environment gives, for a handful of expressions made of the names \<^verbatim>\<open>p\<close>,
  \<^verbatim>\<open>x\<close>, \<^verbatim>\<open>y\<close>, indices and arithmetic operators, and on finite numbers, what the
  libraries give:
  \<^item> black leaves an expression that is already in its style unchanged and ends it with a
    line feed;
  \<^item> the names of such an expression are its runs of letters;
  \<^item> asteval computes the arithmetic (exactly, in the model); any other text is reported
    as an error here;
  \<^item> \<^verbatim>\<open>np.argsort\<close> is a stable sort (NaN last), which is what NumPy does on short
    arrays;
  \<^item> the two SciPy solvers are stand-ins that fail; where a closed instance needs the
    root finder, \<open>fixed_root\<close> puts in its place one that answers a given value;
  \<^item> \<^verbatim>\<open>ensure_string\<close> returns a text as it is.
\<close>

definition is_letter :: "char \<Rightarrow> bool" where
  "is_letter c = (c \<in> set ''abcdefghijklmnopqrstuvwxyzABCDEFGHIJKLMNOPQRSTUVWXYZ'')"

fun letter_runs :: "string \<Rightarrow> string \<Rightarrow> string list" where
  "letter_runs acc [] = (if acc = [] then [] else [rev acc])"
| "letter_runs acc (c # cs) =
     (if is_letter c then letter_runs (c # acc) cs
      else if acc = [] then letter_runs [] cs
      else rev acc # letter_runs [] cs)"

fun fin2 :: "(real \<Rightarrow> real \<Rightarrow> real) \<Rightarrow> fl \<Rightarrow> fl \<Rightarrow> fl" where
  "fin2 f (Fin a) (Fin b) = Fin (f a b)"
| "fin2 f a b = NaN"

definition sample_eval :: "string \<Rightarrow> fl list \<Rightarrow> string \<Rightarrow> fl arr \<Rightarrow> pynum arr \<times> string list" where
  "sample_eval e p v x =
     (let t = str_strip e in
      if t = ''p[0] + p[1] * x'' \<and> v = ''x'' \<and> length p = 2
        then (map_arr (\<lambda>a. Real (fin2 (+) (p ! 0) (fin2 (*) (p ! 1) a))) x, [])
      else if t = ''p[0] * x'' \<and> v = ''x'' \<and> length p = 1
        then (map_arr (\<lambda>a. Real (fin2 (*) (p ! 0) a)) x, [])
      else if t = ''y / p[0]'' \<and> v = ''y'' \<and> length p = 1 \<and> p ! 0 \<noteq> Fin 0
        then (map_arr (\<lambda>a. Real (fin2 (/) a (p ! 0))) x, [])
      else if t = ''p[0] + p[1] * x + p[2] * x * x'' \<and> v = ''x'' \<and> length p = 3
        then (map_arr (\<lambda>a. Real (fin2 (+) (fin2 (+) (p ! 0) (fin2 (*) (p ! 1) a))
                                         (fin2 (*) (fin2 (*) (p ! 2) a) a))) x, [])
      else if t = ''x'' \<and> v = ''x''
        then (map_arr Real x, [])
      else (Scalar (Real NaN), [''not evaluated'']))"

text \<open>The order of NumPy's sort: ascending, NaN last.\<close>

definition sort_le :: "fl \<Rightarrow> fl \<Rightarrow> bool" where
  "sort_le a b = (b = NaN \<or> fle a b)"

text \<open>
  What NumPy documents of \<^verbatim>\<open>np.argsort\<close>: the result lists every index once, and the
  values taken in that order ascend. The order among equal values is left open.
\<close>

definition argsort_spec :: "(fl list \<Rightarrow> nat list) \<Rightarrow> bool" where
  "argsort_spec f =
     (\<forall>xs. mset (f xs) = mset [0..<length xs] \<and> sorted_wrt sort_le (map (\<lambda>i. xs ! i) (f xs)))"

fun insert_index :: "fl list \<Rightarrow> nat \<Rightarrow> nat list \<Rightarrow> nat list" where
  "insert_index xs i [] = [i]"
| "insert_index xs i (j # js) =
     (if sort_le (xs ! j) (xs ! i) then j # insert_index xs i js else i # j # js)"

definition stable_argsort :: "fl list \<Rightarrow> nat list" where
  "stable_argsort xs = foldl (\<lambda>acc i. insert_index xs i acc) [] [0..<length xs]"

definition sample :: ext where
  "sample = \<lparr>
     black_format_str = (\<lambda>s. Some (str_strip s @ [CHR 0x0A])),
     ast_names = letter_runs [],
     safe_eval = sample_eval,
     argsort = stable_argsort,
     least_squares = (\<lambda>f p0. Inl (OtherError ''no solver'')),
     root_scalar = (\<lambda>f x0 bracket. Inl (OtherError ''no solver'')),
     ensure_string = (\<lambda>v. case v of H5Str t \<Rightarrow> Inr t | H5Arr a \<Rightarrow> Inl TypeError)\<rparr>"

text \<open>
  A draw from the default domain, and the calibration that
  \<^verbatim>\<open>Calibration("p[0] + p[1] * x", [1.0, 2.0])\<close> constructs.
\<close>

definition sample_draw :: "fl \<times> fl list" where
  "sample_draw = (Fin 1, [Fin 1, Fin 2, Fin 3, Fin 4, Fin 5])"

definition linear_cal :: calibration where
  "linear_cal = \<lparr>expression = ''p[0] + p[1] * x'', params = [Fin 1, Fin 2],
                 inv_expression = None, domain = DEFAULT_DOMAIN, range_c = DEFAULT_RANGE,
                 attrs = [], points_x = [], points_y = []\<rparr>"

text \<open>The linear calibration after \<^verbatim>\<open>add_points([1.0], [10.0])\<close>.\<close>

definition one_point_cal :: calibration where
  "one_point_cal = linear_cal\<lparr>points_x := [Fin 1], points_y := [Fin 10]\<rparr>"

text \<open>
  The calibration that \<^verbatim>\<open>Calibration("p[0] * x", [2.0], inv_expression="y / p[0]")\<close>
  constructs, and the sample environment with a root finder that answers a given value.
\<close>

definition doubling_cal :: calibration where
  "doubling_cal = \<lparr>expression = ''p[0] * x'', params = [Fin 2],
                   inv_expression = Some ''y / p[0]'', domain = DEFAULT_DOMAIN,
                   range_c = DEFAULT_RANGE, attrs = [], points_x = [], points_y = []\<rparr>"

definition fixed_root :: "fl \<Rightarrow> ext" where
  "fixed_root r = sample\<lparr>root_scalar := (\<lambda>f x0 bracket. Inr r)\<rparr>"

text \<open>
  The datasets of the file that \<^verbatim>\<open>write\<close> produces for the linear calibration with
  the domain from 0 to 100, the range from 0 to 50 and no points.
\<close>

definition stored_file :: "(string \<times> h5val) list" where
  "stored_file = [(''expression'', H5Str ''p[0] + p[1] * x''),
                  (''params'', H5Arr (Vec [Fin 1, Fin 2])),
                  (''domain'', H5Arr (Vec [Fin 0, Fin 100])),
                  (''range'', H5Arr (Vec [Fin 0, Fin 50])),
                  (''points_x'', H5Arr (Vec [])),
                  (''points_y'', H5Arr (Vec []))]"

section \<open>Evaluating the sample environment\<close>

lemma sample_fields:
  "black_format_str sample = (\<lambda>s. Some (str_strip s @ [CHR 0x0A]))"
  "ast_names sample = letter_runs []"
  "safe_eval sample = sample_eval"
  "argsort sample = stable_argsort"
  "least_squares sample = (\<lambda>f p0. Inl (OtherError ''no solver''))"
  "root_scalar sample = (\<lambda>f x0 bracket. Inl (OtherError ''no solver''))"
  "ensure_string sample = (\<lambda>v. case v of H5Str t \<Rightarrow> Inr t | H5Arr a \<Rightarrow> Inl TypeError)"
  by (simp_all add: sample_def)

lemmas sample_simps = sample_fields sample_eval_def stable_argsort_def str_strip_def is_space_def
  is_letter_def validate_expression_def validate_domain_range_def DEFAULT_DOMAIN_def
  DEFAULT_RANGE_def item0_def item1_def fgt_def fle_def fge_def param_indices_def str_split_def
  before_bracket_def py_int_def is_digit_def digit_val_def indices_check_def
  diffs_close_to_1_def atol_def rtol_def trial_evaluations_def eval_expression_def
  np_all_def np_any_def np_clip_def np_maximum_def np_minimum_def no_draw_def

lemma linear_validated:
  "validate_expression sample ''p[0] + p[1] * x'' None ''x'' DEFAULT_DOMAIN DEFAULT_RANGE no_draw
     = Inr ''p[0] + p[1] * x''"
  by (simp add: sample_simps)

lemma linear_validated_params:
  "validate_expression sample ''p[0] + p[1] * x'' (Some [Fin 1, Fin 2]) ''x''
     DEFAULT_DOMAIN DEFAULT_RANGE sample_draw = Inr ''p[0] + p[1] * x''"
  by (simp add: sample_simps sample_draw_def)

lemma default_valid: "validate_domain_range DEFAULT_DOMAIN DEFAULT_RANGE = Inr ()"
  by (simp add: validate_domain_range_def DEFAULT_DOMAIN_def DEFAULT_RANGE_def item0_def
      item1_def fgt_def)

lemma set_domain_default: "set_domain DEFAULT_DOMAIN c = (Inr (), c\<lparr>domain := DEFAULT_DOMAIN\<rparr>)"
  by (simp add: set_domain_def validate_domain_range_def DEFAULT_DOMAIN_def item0_def
      item1_def fgt_def)

lemma set_range_default: "set_range DEFAULT_RANGE c = (Inr (), c\<lparr>range_c := DEFAULT_RANGE\<rparr>)"
  by (simp add: set_range_def validate_domain_range_def DEFAULT_RANGE_def item0_def
      item1_def fgt_def)

lemma sample_no_points:
  "domain c = DEFAULT_DOMAIN \<Longrightarrow> range_c c = DEFAULT_RANGE \<Longrightarrow>
   set_points sample None None c = (Inr (), c\<lparr>points_x := [], points_y := []\<rparr>)"
  by (simp add: set_points_def add_points_def check_points_def take_indices_def
      sample_fields stable_argsort_def DEFAULT_DOMAIN_def DEFAULT_RANGE_def)

lemma linear_cal_built:
  "Calibration_init sample ''p[0] + p[1] * x'' (Vec [Fin 1, Fin 2]) None DEFAULT_DOMAIN
     DEFAULT_RANGE [] sample_draw = Inr linear_cal"
  by (simp add: Calibration_init_def and_then_def set_expression_def set_params_def
      linear_validated linear_validated_params blank_def set_inv_expression_def
      set_domain_default set_range_default set_attrs_def sample_no_points linear_cal_def)

section \<open>Equality of calibrations\<close>

lemma allclose_vectors:
  "np_allclose (Vec as) (Vec bs) =
     (if length as = length bs then Inr (list_all2 isclose as bs)
      else if length as = 1 then Inr (list_all (isclose (as ! 0)) bs)
      else if length bs = 1 then Inr (list_all (\<lambda>a. isclose a (bs ! 0)) as)
      else Inl ValueError)"
  by (auto simp: np_allclose_def np_all_def list_all2_iff list_all_iff)

text \<open>
  Claim C6. \<^verbatim>\<open>a == b\<close> never raises for two calibrations, and it is true exactly when the
  two expressions are the same text and the two parameter vectors have the same length
  and are close element by element in the sense of \<^verbatim>\<open>np.isclose\<close>
  (\<open>list_all2\<close> holds only for lists of equal length, so vectors of different lengths
  compare unequal). The answer does not change when the domains, ranges, attributes and
  points of the two operands are replaced by others.
\<close>

theorem eq_iff_expression_and_close_params:
  "Calibration_eq a (PyCalibration b) =
     Inr (expression a = expression b \<and> list_all2 isclose (params a) (params b)) \<and>
   Calibration_eq
       (a\<lparr>domain := d, range_c := r, attrs := ats, points_x := px, points_y := py\<rparr>)
       (PyCalibration
         (b\<lparr>domain := d', range_c := r', attrs := ats', points_x := px', points_y := py'\<rparr>)) =
     Calibration_eq a (PyCalibration b)"
  by (auto simp: Calibration_eq_def allclose_vectors dest: list_all2_lengthD)

theorem eq_iff_expression_and_close_params_witness:
  "Calibration_eq linear_cal
     (PyCalibration (linear_cal\<lparr>params := [Fin 1.000000001, Fin 2], domain := Vec [Fin 0, Fin 10]\<rparr>))
     = Inr True \<and>
   Calibration_eq linear_cal (PyCalibration (linear_cal\<lparr>params := [Fin 1, Fin 3]\<rparr>)) = Inr False \<and>
   Calibration_eq linear_cal (PyCalibration (linear_cal\<lparr>params := [Fin 1]\<rparr>)) = Inr False \<and>
   Calibration_eq linear_cal (PyCalibration (linear_cal\<lparr>expression := ''p[0] + x * p[1]''\<rparr>))
     = Inr False"
  using eq_iff_expression_and_close_params
          [of linear_cal "linear_cal\<lparr>params := [Fin 1.000000001, Fin 2], domain := Vec [Fin 0, Fin 10]\<rparr>"]
        eq_iff_expression_and_close_params [of linear_cal "linear_cal\<lparr>params := [Fin 1, Fin 3]\<rparr>"]
        eq_iff_expression_and_close_params [of linear_cal "linear_cal\<lparr>params := [Fin 1]\<rparr>"]
        eq_iff_expression_and_close_params
          [of linear_cal "linear_cal\<lparr>expression := ''p[0] + x * p[1]''\<rparr>"]
  by (simp add: linear_cal_def atol_def rtol_def)

text \<open>
  Claim C10. Comparing a calibration with an object that is not an instance of
  \<^verbatim>\<open>Calibration\<close> raises \<^verbatim>\<open>CalibrationError\<close>; it returns neither \<^verbatim>\<open>False\<close>
  nor \<^verbatim>\<open>NotImplemented\<close>.
\<close>

theorem eq_non_calibration_raises:
  "\<not> isinstance_Calibration other \<Longrightarrow>
     Calibration_eq c other = Inl (CalibrationError CompareNonCalibration)"
  by (simp add: Calibration_eq_def)

theorem eq_non_calibration_raises_witness:
  "\<not> isinstance_Calibration PyNone \<and>
   Calibration_eq linear_cal PyNone = Inl (CalibrationError CompareNonCalibration) \<and>
   \<not> isinstance_Calibration (PyFloat (Fin 1)) \<and>
   Calibration_eq linear_cal (PyFloat (Fin 1)) = Inl (CalibrationError CompareNonCalibration)"
  using eq_non_calibration_raises [of PyNone linear_cal]
    eq_non_calibration_raises [of "PyFloat (Fin 1)" linear_cal]
  by simp

section \<open>Domain and range of an evaluation\<close>

lemma flt_not_fle: "flt a b \<Longrightarrow> \<not> fle b a"
  by (cases a; cases b) (auto simp: fle_def)

lemma flt_fle: "flt a b \<Longrightarrow> fle a b"
  by (simp add: fle_def)

lemma fle_refl_finite: "isfinite a \<Longrightarrow> fle a a"
  by (cases a) (auto simp: fle_def)

lemma elems_map_arr: "elems (map_arr f a) = map f (elems a)"
  by (cases a) simp_all

lemma valid_bounds:
  "validate_domain_range dmn rng = Inr () \<Longrightarrow>
     isfinite (item0 dmn) \<and> isfinite (item1 dmn) \<and> flt (item0 dmn) (item1 dmn) \<and>
     isfinite (item0 rng) \<and> isfinite (item1 rng) \<and> flt (item0 rng) (item1 rng)"
  by (auto simp: validate_domain_range_def fgt_def split: if_splits)

lemma outside_fails_domain_test:
  "list_ex (outside l h) xs \<Longrightarrow>
     \<not> list_all (\<lambda>v. fge v l) xs \<or> \<not> list_all (\<lambda>v. fle v h) xs"
  by (auto simp: list_ex_iff list_all_iff outside_def fge_def dest: flt_not_fle)

lemma eval_expression_fails_outside:
  "np_any (outside (item0 dmn) (item1 dmn)) x \<Longrightarrow>
     \<exists>r. eval_expression E e p x iv dmn rng = Inl (CalibrationError r)"
  using outside_fails_domain_test [of "item0 dmn" "item1 dmn" "elems x"]
  by (auto simp: eval_expression_def validate_domain_range_def np_any_def np_all_def
      split: sum.splits)

lemma eval_expression_inside:
  assumes "validate_domain_range dmn rng = Inr ()"
    and "np_all (\<lambda>v. fge v (item0 dmn) \<and> fle v (item1 dmn)) x"
    and "iv = ''x'' \<or> iv = ''y''"
  shows "eval_expression E e p x iv dmn rng =
     (if snd (safe_eval E e p iv x) \<noteq> [] then Inl (CalibrationError AstevalFailed)
      else if \<not> np_all isreal (fst (safe_eval E e p iv x))
        then Inl (CalibrationError ComplexValues)
      else Inr (map_arr (\<lambda>v. np_clip (item0 rng) (item1 rng) (real_part v))
                  (fst (safe_eval E e p iv x))))"
  using assms
  by (auto simp: eval_expression_def np_all_def list_all_iff split: prod.splits)

lemma eval_expression_Inr:
  assumes "eval_expression E e p x iv dmn rng = Inr y"
  shows "validate_domain_range dmn rng = Inr () \<and>
         y = map_arr (\<lambda>v. np_clip (item0 rng) (item1 rng) (real_part v))
               (fst (safe_eval E e p iv x))"
  using assms
  by (auto simp: eval_expression_def split: sum.splits if_splits prod.splits)

lemma np_clip_cases:
  assumes "isfinite l" "isfinite h" "flt l h"
  shows "(flt h r \<longrightarrow> np_clip l h r = h) \<and> (flt r l \<longrightarrow> np_clip l h r = l) \<and>
         (fle l r \<and> fle r h \<longrightarrow> np_clip l h r = r) \<and>
         (r \<noteq> NaN \<longrightarrow> fle l (np_clip l h r) \<and> fle (np_clip l h r) h)"
  using assms
  by (cases l; cases h; cases r)
     (auto simp: np_clip_def np_maximum_def np_minimum_def fle_def)

text \<open>
  Claim C2. The domain is a hard contract on the input of \<^verbatim>\<open>_eval_expression\<close>. For
  every expression, parameter vector and input: if some element of the input is strictly
  below the lower bound of the domain or strictly above the upper one, the evaluation
  raises \<^verbatim>\<open>CalibrationError\<close>. At the two bounds themselves (each alone, or both in
  one array) and under a valid domain and range, the domain test lets the input through:
  the evaluation returns a value exactly when the interpreter evaluates the expression
  there without an error and to real values.
\<close>

theorem domain_is_enforced:
  "(np_any (outside (item0 dmn) (item1 dmn)) x \<longrightarrow>
      (\<exists>r. eval_expression E e p x iv dmn rng = Inl (CalibrationError r))) \<and>
   (validate_domain_range dmn rng = Inr () \<and> (iv = ''x'' \<or> iv = ''y'') \<and>
    (b = Scalar (item0 dmn) \<or> b = Scalar (item1 dmn) \<or> b = Vec [item0 dmn, item1 dmn]) \<longrightarrow>
      ((\<exists>y. eval_expression E e p b iv dmn rng = Inr y) \<longleftrightarrow>
         snd (safe_eval E e p iv b) = [] \<and> np_all isreal (fst (safe_eval E e p iv b))))"
proof (intro conjI impI)
  assume "np_any (outside (item0 dmn) (item1 dmn)) x"
  then show "\<exists>r. eval_expression E e p x iv dmn rng = Inl (CalibrationError r)"
    by (rule eval_expression_fails_outside)
next
  assume a: "validate_domain_range dmn rng = Inr () \<and> (iv = ''x'' \<or> iv = ''y'') \<and>
    (b = Scalar (item0 dmn) \<or> b = Scalar (item1 dmn) \<or> b = Vec [item0 dmn, item1 dmn])"
  then have v: "validate_domain_range dmn rng = Inr ()" and i: "iv = ''x'' \<or> iv = ''y''"
    by simp_all
  from valid_bounds [OF v] have
    "fle (item0 dmn) (item0 dmn)" "fle (item1 dmn) (item1 dmn)" "fle (item0 dmn) (item1 dmn)"
    by (simp_all add: fle_refl_finite flt_fle)
  with a have "np_all (\<lambda>v. fge v (item0 dmn) \<and> fle v (item1 dmn)) b"
    by (auto simp: np_all_def fge_def)
  from eval_expression_inside [OF v this i]
  show "(\<exists>y. eval_expression E e p b iv dmn rng = Inr y) \<longleftrightarrow>
         snd (safe_eval E e p iv b) = [] \<and> np_all isreal (fst (safe_eval E e p iv b))"
    by auto
qed

theorem domain_is_enforced_witness:
  "np_any (outside (item0 DEFAULT_DOMAIN) (item1 DEFAULT_DOMAIN)) (Vec [Fin 5, Fin (-1)]) \<and>
   Calibration_call sample linear_cal (Vec [Fin 5, Fin (-1)]) =
     Inl (CalibrationError BelowDomain) \<and>
   np_any (outside (item0 DEFAULT_DOMAIN) (item1 DEFAULT_DOMAIN)) (Scalar (Fin 100001)) \<and>
   Calibration_call sample linear_cal (Scalar (Fin 100001)) =
     Inl (CalibrationError AboveDomain) \<and>
   Calibration_call sample linear_cal (Scalar (Fin 0)) = Inr (Scalar (Fin 1)) \<and>
   Calibration_call sample linear_cal (Scalar (Fin 100000)) = Inr (Scalar (Fin 100000))"
  using domain_is_enforced [of DEFAULT_DOMAIN "Vec [Fin 5, Fin (-1)]" sample
      "''p[0] + p[1] * x''" "[Fin 1, Fin 2]" "''x''" DEFAULT_RANGE "Scalar (Fin 0)"]
    domain_is_enforced [of DEFAULT_DOMAIN "Scalar (Fin 100001)" sample
      "''p[0] + p[1] * x''" "[Fin 1, Fin 2]" "''x''" DEFAULT_RANGE "Scalar (Fin 100000)"]
  by (simp add: Calibration_call_def linear_cal_def sample_simps outside_def)

text \<open>
  Claim C3. Whenever \<^verbatim>\<open>_eval_expression\<close> returns, what it returns is the result of the
  interpreter with \<^verbatim>\<open>np.clip\<close> applied to every element: an element above the range
  becomes exactly the upper bound, one below becomes exactly the lower bound, one inside
  is unchanged. A result outside the range is no reason for an error: under a valid domain
  and range, an input inside the domain and an interpreter that gives real values without
  an error, the evaluation returns, however far the raw result is from the range.
\<close>

theorem result_is_clipped:
  "(eval_expression E e p x iv dmn rng = Inr y \<longrightarrow>
      y = map_arr (\<lambda>v. np_clip (item0 rng) (item1 rng) (real_part v))
            (fst (safe_eval E e p iv x)) \<and>
      list_all2 (clipped_to (item0 rng) (item1 rng))
        (map real_part (elems (fst (safe_eval E e p iv x)))) (elems y)) \<and>
   (validate_domain_range dmn rng = Inr () \<and>
    np_all (\<lambda>v. fge v (item0 dmn) \<and> fle v (item1 dmn)) x \<and> (iv = ''x'' \<or> iv = ''y'') \<and>
    snd (safe_eval E e p iv x) = [] \<and> np_all isreal (fst (safe_eval E e p iv x)) \<longrightarrow>
      (\<exists>y. eval_expression E e p x iv dmn rng = Inr y))"
proof (intro conjI impI)
  assume r: "eval_expression E e p x iv dmn rng = Inr y"
  from eval_expression_Inr [OF r]
  have y: "y = map_arr (\<lambda>v. np_clip (item0 rng) (item1 rng) (real_part v))
            (fst (safe_eval E e p iv x))"
    and v: "validate_domain_range dmn rng = Inr ()"
    by simp_all
  show "y = map_arr (\<lambda>v. np_clip (item0 rng) (item1 rng) (real_part v))
            (fst (safe_eval E e p iv x))"
    by (rule y)
  from valid_bounds [OF v]
  have "clipped_to (item0 rng) (item1 rng) r (np_clip (item0 rng) (item1 rng) r)" for r
    unfolding clipped_to_def by (intro np_clip_cases) simp_all
  then show "list_all2 (clipped_to (item0 rng) (item1 rng))
        (map real_part (elems (fst (safe_eval E e p iv x)))) (elems y)"
    by (simp add: y elems_map_arr list_all2_map1 list_all2_map2 list_all2_same)
next
  assume "validate_domain_range dmn rng = Inr () \<and>
    np_all (\<lambda>v. fge v (item0 dmn) \<and> fle v (item1 dmn)) x \<and> (iv = ''x'' \<or> iv = ''y'') \<and>
    snd (safe_eval E e p iv x) = [] \<and> np_all isreal (fst (safe_eval E e p iv x))"
  then show "\<exists>y. eval_expression E e p x iv dmn rng = Inr y"
    by (simp add: eval_expression_inside)
qed

theorem result_is_clipped_witness:
  "Calibration_call sample (linear_cal\<lparr>range_c := Vec [Fin 10, Fin 50]\<rparr>)
     (Vec [Fin 0, Fin 10, Fin 1000]) = Inr (Vec [Fin 10, Fin 21, Fin 50]) \<and>
   safe_eval sample ''p[0] + p[1] * x'' [Fin 1, Fin 2] ''x'' (Vec [Fin 0, Fin 10, Fin 1000]) =
     (Vec [Real (Fin 1), Real (Fin 21), Real (Fin 2001)], []) \<and>
   list_all2 (clipped_to (Fin 10) (Fin 50)) [Fin 1, Fin 21, Fin 2001] [Fin 10, Fin 21, Fin 50]"
  using result_is_clipped [of sample "''p[0] + p[1] * x''" "[Fin 1, Fin 2]"
      "Vec [Fin 0, Fin 10, Fin 1000]" "''x''" DEFAULT_DOMAIN "Vec [Fin 10, Fin 50]"
      "Vec [Fin 10, Fin 21, Fin 50]"]
  by (simp add: Calibration_call_def linear_cal_def sample_simps)

section \<open>Parameter indices of a validated expression\<close>

lemma isclose_int_1: "isclose (Fin (real_of_int d)) (Fin 1) \<longleftrightarrow> d = 1"
proof
  assume c: "isclose (Fin (real_of_int d)) (Fin 1)"
  show "d = 1"
  proof (rule ccontr)
    assume "d \<noteq> 1"
    then have "1 \<le> \<bar>d - 1\<bar>" by arith
    then have "1 \<le> \<bar>real_of_int d - 1\<bar>"
      by (metis of_int_1 of_int_abs of_int_diff of_int_le_iff)
    with c show False by (simp add: atol_def rtol_def)
  qed
next
  assume "d = 1"
  then show "isclose (Fin (real_of_int d)) (Fin 1)" by (simp add: atol_def rtol_def)
qed

lemma diffs_close_to_1_iff: "diffs_close_to_1 idx \<longleftrightarrow> list_all (\<lambda>d. d = 1) (np_diff idx)"
  by (simp only: diffs_close_to_1_def isclose_int_1)

lemma unit_steps_from:
  "list_all (\<lambda>d. d = 1) (np_diff (i # js)) \<Longrightarrow>
     i # js = map (\<lambda>k. i + int k) [0..<Suc (length js)]"
proof (induction js arbitrary: i)
  case Nil
  then show ?case by simp
next
  case (Cons j js)
  then have j: "j = i + 1" and rest: "list_all (\<lambda>d. d = 1) (np_diff (j # js))"
    by simp_all
  from Cons.IH [OF rest] have "j # js = map (\<lambda>k. j + int k) [0..<Suc (length js)]" .
  then have "i # j # js = i # map (\<lambda>k. i + int (Suc k)) [0..<Suc (length js)]"
    using j by (simp add: add.assoc del: upt_Suc)
  also have "\<dots> = map (\<lambda>k. i + int k) [0..<Suc (Suc (length js))]"
    by (simp add: map_upt_Suc del: upt_Suc)
  finally show ?case by simp
qed

lemma np_min_least: "\<forall>j \<in> set js. m \<le> j \<Longrightarrow> np_min m js = m"
  by (induction js arbitrary: m) (auto simp: min_def)

lemma indices_check_contiguous:
  assumes "indices_check idx = Inr ()"
  shows "idx = map int [0..<length idx]"
proof (cases idx)
  case Nil
  then show ?thesis by simp
next
  case (Cons i js)
  with assms have m: "np_min i js = 0" and d: "list_all (\<lambda>d. d = 1) (np_diff (i # js))"
    by (auto simp: indices_check_def diffs_close_to_1_iff split: if_splits)
  from unit_steps_from [OF d] have e: "i # js = map (\<lambda>k. i + int k) [0..<Suc (length js)]" .
  then have "set js \<subseteq> {j. i \<le> j}"
    by (metis (no_types, lifting) ext Cons_eq_map_conv  imageE le_add_same_cancel1 list.set_map mem_Collect_eq of_nat_0_le_iff subsetI)
  then have "np_min i js = i" by (intro np_min_least) auto
  with m have "i = 0" by simp
  with e Cons show ?thesis by simp
qed

lemma param_indices_sorted_unique:
  "param_indices t = Inr idx \<Longrightarrow> sorted idx \<and> distinct idx"
  by (auto simp: param_indices_def split: sum.splits)

lemma param_indices_set:
  "param_indices t = Inr idx \<Longrightarrow>
     \<exists>js. ints_of_tokens (tl (str_split ''p['' t)) = Inr js \<and> set idx = set js"
  by (auto simp: param_indices_def split: sum.splits)

lemma validate_expression_Inr:
  assumes "validate_expression E e ps iv dmn rng draw = Inr r"
  shows "\<exists>t idx. black_format_str E e = Some t \<and> param_indices t = Inr idx \<and>
           indices_check idx = Inr () \<and> (\<forall>p. ps = Some p \<longrightarrow> length p = length idx) \<and>
           r = str_strip t"
  using assms
  by (auto simp: validate_expression_def split: sum.splits option.splits if_splits)

text \<open>
  Claim C4. \<^verbatim>\<open>_param_indices\<close> gives the integers that follow the occurrences of
  \<^verbatim>\<open>p[\<close> in the text, in ascending order and without repetition. Whenever \<^verbatim>\<open>_validate_expression\<close> accepts an expression, the indices of
  its formatted text are exactly \<open>0, 1, ..., n - 1\<close> for some \<open>n\<close> (none missing, the
  least one 0), and a parameter vector, when one is given, has length \<open>n\<close>. So a text
  whose indices include 0 and 2 but not 1 is refused, whatever else holds; and a text
  whose indices are 0 and 1 is accepted when no parameter vector is given, the domain and
  range are valid, black accepts the text and the independent variable occurs in it.
\<close>

theorem indices_contiguous_from_zero:
  "(param_indices t = Inr idx \<longrightarrow>
      sorted idx \<and> distinct idx \<and>
      (\<exists>js. ints_of_tokens (tl (str_split ''p['' t)) = Inr js \<and> set idx = set js)) \<and>
   (validate_expression E e ps iv dmn rng draw = Inr r \<longrightarrow>
      (\<exists>t n. black_format_str E e = Some t \<and> param_indices t = Inr (map int [0..<n]) \<and>
             (\<forall>p. ps = Some p \<longrightarrow> length p = n))) \<and>
   (black_format_str E e = Some t \<and> param_indices t = Inr idx \<and>
    0 \<in> set idx \<and> 2 \<in> set idx \<and> 1 \<notin> set idx \<longrightarrow>
      (\<exists>err. validate_expression E e ps iv dmn rng draw = Inl err)) \<and>
   (validate_domain_range dmn rng = Inr () \<and> black_format_str E e = Some t \<and>
    (iv = ''x'' \<or> iv = ''y'') \<and> iv \<in> set (ast_names E t) \<and> param_indices t = Inr [0, 1] \<longrightarrow>
      validate_expression E e None iv dmn rng draw = Inr (str_strip t))"
proof (intro conjI impI)
  assume "param_indices t = Inr idx"
  then show "sorted idx" "distinct idx"
    "\<exists>js. ints_of_tokens (tl (str_split ''p['' t)) = Inr js \<and> set idx = set js"
    by (simp_all add: param_indices_sorted_unique param_indices_set)
next
  assume "validate_expression E e ps iv dmn rng draw = Inr r"
  from validate_expression_Inr [OF this] obtain t' idx' where
    b: "black_format_str E e = Some t'" and i: "param_indices t' = Inr idx'" and
    c: "indices_check idx' = Inr ()" and l: "\<forall>p. ps = Some p \<longrightarrow> length p = length idx'"
    by blast
  from indices_check_contiguous [OF c] i have "param_indices t' = Inr (map int [0..<length idx'])"
    by simp
  with b l show "\<exists>t n. black_format_str E e = Some t \<and> param_indices t = Inr (map int [0..<n]) \<and>
             (\<forall>p. ps = Some p \<longrightarrow> length p = n)"
    by blast
next
  assume a: "black_format_str E e = Some t \<and> param_indices t = Inr idx \<and>
    0 \<in> set idx \<and> 2 \<in> set idx \<and> 1 \<notin> set idx"
  show "\<exists>err. validate_expression E e ps iv dmn rng draw = Inl err"
  proof (cases "validate_expression E e ps iv dmn rng draw")
    case (Inl err)
    then show ?thesis by blast
  next
    case (Inr r')
    from validate_expression_Inr [OF this] a have c: "indices_check idx = Inr ()"
      by auto
    from indices_check_contiguous [OF c] have e: "set idx = int ` {0..<length idx}"
      by (metis atLeastLessThan_upt list.set_map)
    from a e have "2 < length idx" by auto
    then have "1 \<in> int ` {0..<length idx}" by force 
    with a e show ?thesis by simp
  qed
next
  assume "validate_domain_range dmn rng = Inr () \<and> black_format_str E e = Some t \<and>
    (iv = ''x'' \<or> iv = ''y'') \<and> iv \<in> set (ast_names E t) \<and> param_indices t = Inr [0, 1]"
  then show "validate_expression E e None iv dmn rng draw = Inr (str_strip t)"
    by (auto simp: validate_expression_def indices_check_def diffs_close_to_1_iff)
qed

theorem indices_contiguous_from_zero_witness:
  "black_format_str sample ''p[0] + p[2] * x'' = Some (''p[0] + p[2] * x'' @ [CHR 0x0A]) \<and>
   param_indices (''p[0] + p[2] * x'' @ [CHR 0x0A]) = Inr [0, 2] \<and>
   validate_expression sample ''p[0] + p[2] * x'' None ''x'' DEFAULT_DOMAIN DEFAULT_RANGE
     no_draw = Inl (CalibrationError IndicesNotContiguous) \<and>
   black_format_str sample ''p[0] + p[1] * x'' = Some (''p[0] + p[1] * x'' @ [CHR 0x0A]) \<and>
   param_indices (''p[0] + p[1] * x'' @ [CHR 0x0A]) = Inr [0, 1] \<and>
   validate_expression sample ''p[0] + p[1] * x'' None ''x'' DEFAULT_DOMAIN DEFAULT_RANGE
     no_draw = Inr ''p[0] + p[1] * x'' \<and>
   validate_expression sample ''p[0] + p[1] * x'' (Some [Fin 1, Fin 2]) ''x'' DEFAULT_DOMAIN
     DEFAULT_RANGE sample_draw = Inr ''p[0] + p[1] * x'' \<and>
   validate_expression sample ''p[0] + p[1] * x'' (Some [Fin 1]) ''x'' DEFAULT_DOMAIN
     DEFAULT_RANGE sample_draw = Inl (CalibrationError ParamCountMismatch)"
  using indices_contiguous_from_zero [of "''p[0] + p[2] * x'' @ [CHR 0x0A]" "[0, 2]" sample
      "''p[0] + p[2] * x''" None "''x''" DEFAULT_DOMAIN DEFAULT_RANGE no_draw "[]"]
    indices_contiguous_from_zero [of "''p[0] + p[1] * x'' @ [CHR 0x0A]" "[0, 1]" sample
      "''p[0] + p[1] * x''" "Some [Fin 1, Fin 2]" "''x''" DEFAULT_DOMAIN DEFAULT_RANGE
      sample_draw "''p[0] + p[1] * x''"]
  by (simp add: sample_simps sample_draw_def)

section \<open>Fitting, setters and construction\<close>

lemma eval_expression_solver_free:
  "eval_expression (E\<lparr>least_squares := L\<rparr>) = eval_expression E"
  by (intro ext) (simp add: eval_expression_def cong: sum.case_cong if_cong)

lemma validate_expression_solver_free:
  "validate_expression (E\<lparr>least_squares := L\<rparr>) = validate_expression E"
  by (intro ext)
     (simp add: validate_expression_def trial_evaluations_def eval_expression_solver_free
        cong: sum.case_cong option.case_cong if_cong)

lemma check_points_solver_free:
  "check_points (E\<lparr>least_squares := L\<rparr>) = check_points E"
  by (intro ext) (simp add: check_points_def Let_def cong: sum.case_cong if_cong)

text \<open>
  Claim C7. Let the expression pass the first validation, the points pass their check, and
  let the expression have \<open>n\<close> parameter indices. With fewer than \<open>n\<close> points,
  \<^verbatim>\<open>_fit_expression\<close> fails, whatever the solver is. When the starting parameters
  have length \<open>n\<close> and the second validation passes, the failure is the error "Expression
  has \<open>n\<close> free parameters but there are only ... points to fit"; and with \<open>n = 0\<close> the
  result is the empty parameter vector, again whatever the solver is: the solver is not
  called.
\<close>

theorem underdetermined_fit_fails:
  "validate_expression E e None ''x'' dmn rng no_draw = Inr e1 \<and>
   check_points E px py dmn rng = Inr (xs, ys) \<and> param_indices e1 = Inr idx \<longrightarrow>
     (length xs < length idx \<longrightarrow>
        (\<exists>err. fit_expression (E\<lparr>least_squares := L\<rparr>) e px py params0 dmn rng draw = Inl err)) \<and>
     (p0 = (case params0 of None \<Rightarrow> replicate (length idx) (Fin 1) | Some a \<Rightarrow> elems a) \<and>
      length p0 = length idx \<and>
      validate_expression E e1 (Some p0) ''x'' DEFAULT_DOMAIN DEFAULT_RANGE draw = Inr e2 \<longrightarrow>
        (length xs < length idx \<longrightarrow>
           fit_expression (E\<lparr>least_squares := L\<rparr>) e px py params0 dmn rng draw =
             Inl (CalibrationError (NotEnoughPoints (length idx) (length xs)))) \<and>
        (length idx = 0 \<longrightarrow>
           fit_expression (E\<lparr>least_squares := L\<rparr>) e px py params0 dmn rng draw = Inr []))"
  by (auto simp: fit_expression_def validate_expression_solver_free check_points_solver_free
      Let_def split: sum.splits cong: option.case_cong)


lemmas points_simps = check_points_def take_indices_def sample_fields stable_argsort_def
  sort_le_def fle_def outside_def DEFAULT_DOMAIN_def DEFAULT_RANGE_def Let_def

lemma two_points_checked:
  "check_points sample (Some (Vec [Fin 1, Fin 2])) (Some (Vec [Fin 1, Fin 2])) DEFAULT_DOMAIN
     DEFAULT_RANGE = Inr ([Fin 1, Fin 2], [Fin 1, Fin 2])"
  by (simp add: points_simps)

lemma quadratic_validated:
  "validate_expression sample ''p[0] + p[1] * x + p[2] * x * x'' None ''x'' DEFAULT_DOMAIN
     DEFAULT_RANGE no_draw = Inr ''p[0] + p[1] * x + p[2] * x * x''"
  by (simp add: sample_simps)

lemma quadratic_validated_params:
  "validate_expression sample ''p[0] + p[1] * x + p[2] * x * x'' (Some [Fin 1, Fin 1, Fin 1])
     ''x'' DEFAULT_DOMAIN DEFAULT_RANGE sample_draw = Inr ''p[0] + p[1] * x + p[2] * x * x''"
  by (simp add: sample_simps sample_draw_def)

lemma quadratic_indices:
  "param_indices ''p[0] + p[1] * x + p[2] * x * x'' = Inr [0, 1, 2]"
  by (simp add: sample_simps)

lemma identity_validated:
  "validate_expression sample ''x'' ps ''x'' DEFAULT_DOMAIN DEFAULT_RANGE sample_draw = 
    (if ps = None \<or> ps = Some [] then Inr ''x'' else Inl (CalibrationError ParamCountMismatch))"
  "validate_expression sample ''x'' None ''x'' DEFAULT_DOMAIN DEFAULT_RANGE no_draw = Inr ''x''"
  "param_indices ''x'' = Inr []"
  by (auto simp add: sample_simps sample_draw_def split: option.splits)

theorem underdetermined_fit_fails_witness:
  "fit_expression sample ''p[0] + p[1] * x + p[2] * x * x'' (Some (Vec [Fin 1, Fin 2]))
     (Some (Vec [Fin 1, Fin 2])) None DEFAULT_DOMAIN DEFAULT_RANGE sample_draw =
     Inl (CalibrationError (NotEnoughPoints 3 2)) \<and>
   fit_expression sample ''x'' (Some (Vec [Fin 1, Fin 2])) (Some (Vec [Fin 1, Fin 2])) None
     DEFAULT_DOMAIN DEFAULT_RANGE sample_draw = Inr []"
  using underdetermined_fit_fails [of sample "''p[0] + p[1] * x + p[2] * x * x''"
      DEFAULT_DOMAIN DEFAULT_RANGE "''p[0] + p[1] * x + p[2] * x * x''"
      "Some (Vec [Fin 1, Fin 2])" "Some (Vec [Fin 1, Fin 2])" "[Fin 1, Fin 2]" "[Fin 1, Fin 2]"
      "[0, 1, 2]" "least_squares sample" None sample_draw "[Fin 1, Fin 1, Fin 1]"
      "''p[0] + p[1] * x + p[2] * x * x''"]
    underdetermined_fit_fails [of sample "''x''" DEFAULT_DOMAIN DEFAULT_RANGE "''x''"
      "Some (Vec [Fin 1, Fin 2])" "Some (Vec [Fin 1, Fin 2])" "[Fin 1, Fin 2]" "[Fin 1, Fin 2]"
      "[]" "least_squares sample" None sample_draw "[]" "''x''"]
  by (simp add: two_points_checked quadratic_validated quadratic_validated_params
      quadratic_indices identity_validated numeral_3_eq_3)


lemma set_expression_failed: "set_expression E e c = (Inl err, c') \<Longrightarrow> c' = c"
  by (auto simp: set_expression_def split: sum.splits)

lemma set_params_failed: "set_params E p draw c = (Inl err, c') \<Longrightarrow> c' = c"
  by (auto simp: set_params_def split: arr.splits sum.splits)

lemma set_inv_expression_failed: "set_inv_expression E ie c = (Inl err, c') \<Longrightarrow> c' = c"
  by (auto simp: set_inv_expression_def split: option.splits sum.splits)

lemma set_domain_failed: "set_domain d c = (Inl err, c') \<Longrightarrow> c' = c"
  by (auto simp: set_domain_def split: sum.splits)

lemma set_range_failed: "set_range r c = (Inl err, c') \<Longrightarrow> c' = c"
  by (auto simp: set_range_def split: sum.splits)

lemma fit_failed: "fit E draw1 draw2 c = (Inl err, c') \<Longrightarrow> c' = c"
  by (auto simp: fit_def split: sum.splits dest: set_params_failed)

lemma and_then_Inr:
  "and_then r f = (Inr u, c) \<Longrightarrow> \<exists>c1. r = (Inr (), c1) \<and> f c1 = (Inr u, c)"
  by (cases r) (auto simp: and_then_def split: sum.splits)

lemma Calibration_init_Inr:
  assumes "Calibration_init E e p ie d r a draw = Inr c"
  shows "\<exists>e' ps. validate_expression E e None ''x'' DEFAULT_DOMAIN DEFAULT_RANGE no_draw = Inr e' \<and>
           p = Vec ps \<and>
           (\<exists>e''. validate_expression E e' (Some ps) ''x'' DEFAULT_DOMAIN DEFAULT_RANGE draw = Inr e'') \<and>
           expression c = e' \<and> params c = ps"
proof -
  from assms obtain c6 where
    "and_then (and_then (and_then (and_then (and_then (and_then
             (set_expression E e blank)
             (set_params E p draw))
             (set_inv_expression E ie))
             (set_domain d))
             (set_range r))
             (set_attrs a))
             (set_points E None None) = (Inr (), c)"
    by (auto simp: Calibration_init_def split: prod.splits sum.splits)
  then obtain c5 where
    s6: "set_points E None None c5 = (Inr (), c)" and
    r5: "and_then (and_then (and_then (and_then (and_then
             (set_expression E e blank)
             (set_params E p draw))
             (set_inv_expression E ie))
             (set_domain d))
             (set_range r))
             (set_attrs a) = (Inr (), c5)"
    by (blast dest: and_then_Inr)
  then obtain c4 where
    s5: "set_attrs a c4 = (Inr (), c5)" and
    r4: "and_then (and_then (and_then (and_then
             (set_expression E e blank)
             (set_params E p draw))
             (set_inv_expression E ie))
             (set_domain d))
             (set_range r) = (Inr (), c4)"
    by (blast dest: and_then_Inr)
  then obtain c3 where
    s4: "set_range r c3 = (Inr (), c4)" and
    r3: "and_then (and_then (and_then
             (set_expression E e blank)
             (set_params E p draw))
             (set_inv_expression E ie))
             (set_domain d) = (Inr (), c3)"
    by (blast dest: and_then_Inr)
  then obtain c2 where
    s3: "set_domain d c2 = (Inr (), c3)" and
    r2: "and_then (and_then
             (set_expression E e blank)
             (set_params E p draw))
             (set_inv_expression E ie) = (Inr (), c2)"
    by (blast dest: and_then_Inr)
  then obtain c1 where
    s2: "set_inv_expression E ie c1 = (Inr (), c2)" and
    r1: "and_then (set_expression E e blank) (set_params E p draw) = (Inr (), c1)"
    by (blast dest: and_then_Inr)
  then obtain c0 where
    s1: "set_params E p draw c0 = (Inr (), c1)" and
    s0: "set_expression E e blank = (Inr (), c0)"
    by (blast dest: and_then_Inr)
  from s0 obtain e' where e': "validate_expression E e None ''x'' DEFAULT_DOMAIN DEFAULT_RANGE no_draw = Inr e'"
    and c0: "c0 = blank\<lparr>expression := e'\<rparr>"
    by (auto simp: set_expression_def split: sum.splits)
  from s1 c0 obtain ps e'' where ps: "p = Vec ps"
    and v: "validate_expression E e' (Some ps) ''x'' DEFAULT_DOMAIN DEFAULT_RANGE draw = Inr e''"
    and c1: "c1 = c0\<lparr>params := ps\<rparr>"
    by (auto simp: set_params_def split: arr.splits sum.splits)
  from s2 have c2: "expression c2 = expression c1 \<and> params c2 = params c1"
    by (auto simp: set_inv_expression_def split: option.splits sum.splits)
  from s3 have c3: "expression c3 = expression c2 \<and> params c3 = params c2"
    by (auto simp: set_domain_def split: sum.splits)
  from s4 have c4: "expression c4 = expression c3 \<and> params c4 = params c3"
    by (auto simp: set_range_def split: sum.splits)
  from s5 have c5: "expression c5 = expression c4 \<and> params c5 = params c4"
    by (auto simp: set_attrs_def)
  from s6 have c6: "expression c = expression c5 \<and> params c = params c5"
    by (auto simp: set_points_def add_points_def Let_def split: sum.splits prod.splits)
  from c0 c1 c2 c3 c4 c5 c6 have "expression c = e' \<and> params c = ps" by simp
  with e' ps v show ?thesis by blast
qed

lemma no_points_checked:
  "check_points sample (Some (Vec [])) (Some (Vec [])) DEFAULT_DOMAIN DEFAULT_RANGE = Inr ([], [])"
  by (simp add: points_simps)

lemma linear_indices: "param_indices ''p[0] + p[1] * x'' = Inr [0, 1]"
  by (simp add: sample_simps)

lemma linear_fit_without_points:
  "fit_expression sample ''p[0] + p[1] * x'' (Some (Vec [])) (Some (Vec []))
     (Some (Vec [Fin 1, Fin 2])) DEFAULT_DOMAIN DEFAULT_RANGE sample_draw =
     Inl (CalibrationError (NotEnoughPoints 2 0))"
  by (simp add: fit_expression_def linear_validated no_points_checked linear_indices
      linear_validated_params)

lemma gap_refused:
  "validate_expression sample ''p[0] + p[2] * x'' None ''x'' DEFAULT_DOMAIN DEFAULT_RANGE no_draw
     = Inl (CalibrationError IndicesNotContiguous)"
  by (simp add: sample_simps)

lemma linear_one_param_refused:
  "validate_expression sample ''p[0] + p[1] * x'' (Some [Fin 1]) ''x'' DEFAULT_DOMAIN
     DEFAULT_RANGE sample_draw = Inl (CalibrationError ParamCountMismatch)"
  by (simp add: sample_simps)

lemma gap_not_built:
  "Calibration_init sample ''p[0] + p[2] * x'' (Vec [Fin 1, Fin 2]) None DEFAULT_DOMAIN
     DEFAULT_RANGE [] sample_draw = Inl (CalibrationError IndicesNotContiguous)"
  by (simp add: Calibration_init_def and_then_def set_expression_def gap_refused)

lemma mismatched_points_refused:
  "check_points sample (Some (Vec [Fin 1])) (Some (Vec [Fin 1, Fin 2])) DEFAULT_DOMAIN
     DEFAULT_RANGE = Inl (CalibrationError (PointsLengthMismatch 1 2))"
  by (simp add: check_points_def)

section \<open>Inversion\<close>

lemma doubling_validated:
  "validate_expression sample ''p[0] * x'' None ''x'' DEFAULT_DOMAIN DEFAULT_RANGE no_draw
     = Inr ''p[0] * x''"
  "validate_expression sample ''p[0] * x'' (Some [Fin 2]) ''x'' DEFAULT_DOMAIN DEFAULT_RANGE
     sample_draw = Inr ''p[0] * x''"
  "validate_expression sample ''y / p[0]'' None ''y'' DEFAULT_DOMAIN DEFAULT_RANGE no_draw
     = Inr ''y / p[0]''"
  by (simp_all add: sample_simps sample_draw_def)

lemma doubling_cal_built:
  "Calibration_init sample ''p[0] * x'' (Vec [Fin 2]) (Some ''y / p[0]'') DEFAULT_DOMAIN
     DEFAULT_RANGE [] sample_draw = Inr doubling_cal"
  by (simp add: Calibration_init_def and_then_def set_expression_def set_params_def
      doubling_validated blank_def set_inv_expression_def
      set_domain_default set_range_default set_attrs_def sample_no_points doubling_cal_def)

lemma doubling_call:
  "Calibration_call sample doubling_cal (Scalar (Fin v)) =
     (if 0 \<le> v \<and> v \<le> 100000 then Inr (Scalar (Fin (min (2 * v) 100000)))
      else if v < 0 then Inl (CalibrationError BelowDomain)
      else Inl (CalibrationError AboveDomain))"
  by (simp add: Calibration_call_def doubling_cal_def sample_simps min_def)

lemma doubling_inverse:
  "Calibration_inverse sample doubling_cal (Scalar (Fin 100000)) None = Inr (Scalar (Fin 50000))"
proof -
  have x: "inverse_x sample doubling_cal (Scalar (Fin 100000)) None = Inr (Scalar (Fin 50000))"
    by (simp add: inverse_x_def doubling_cal_def sample_simps)
  have r: "\<not> np_any (outside (item0 (range_c doubling_cal)) (item1 (range_c doubling_cal)))
             (Scalar (Fin 100000))"
    by (simp add: doubling_cal_def DEFAULT_RANGE_def item0_def item1_def np_any_def outside_def)
  show ?thesis
    by (simp add: Calibration_inverse_def x r doubling_call np_allclose_def np_all_def
        atol_def rtol_def)
qed

text \<open>
  Claim C1, as stated, fails: the forward function is clipped to the range, so an input
  whose raw value lies above the range shares its output with other inputs. With
  \<^verbatim>\<open>p[0] * x\<close>, \<^verbatim>\<open>p = [2]\<close> and the closed-form inverse \<^verbatim>\<open>y / p[0]\<close> under
  the default domain and range, \<open>c(60000)\<close> is \<open>100000\<close> and \<open>c.inverse(100000)\<close>
  returns \<open>50000\<close>, which is not close to \<open>60000\<close>.
\<close>

theorem round_trip_counterexample:
  "Calibration_init sample ''p[0] * x'' (Vec [Fin 2]) (Some ''y / p[0]'') DEFAULT_DOMAIN
     DEFAULT_RANGE [] sample_draw = Inr doubling_cal \<and>
   Calibration_call sample doubling_cal (Scalar (Fin 60000)) = Inr (Scalar (Fin 100000)) \<and>
   Calibration_inverse sample doubling_cal (Scalar (Fin 100000)) None =
     Inr (Scalar (Fin 50000)) \<and>
   np_allclose (Scalar (Fin 50000)) (Scalar (Fin 60000)) = Inr False"
  by (simp add: doubling_cal_built doubling_call doubling_inverse np_allclose_def np_all_def
      atol_def rtol_def)

text \<open>
  Claim C1, amended. For every calibration and every requested \<open>y\<close>, by the closed-form
  path and by the numerical one: when \<^verbatim>\<open>inverse\<close> returns \<open>x\<close>, the forward function
  evaluates at \<open>x\<close> and its value is close to \<open>y\<close> in the sense of
  \<^verbatim>\<open>np.allclose\<close>; and when the value computed for \<open>x\<close> is not close to \<open>y\<close>,
  \<^verbatim>\<open>inverse\<close> raises \<^verbatim>\<open>AssertionError\<close> instead of returning.
\<close>

theorem inverse_is_consistent:
  "(Calibration_inverse E c y x0 = Inr x \<longrightarrow>
      (\<exists>v. Calibration_call E c x = Inr v \<and> np_allclose v y = Inr True)) \<and>
   (\<not> np_any (outside (item0 (range_c c)) (item1 (range_c c))) y \<and>
    inverse_x E c y x0 = Inr x \<and> Calibration_call E c x = Inr v \<and>
    np_allclose v y = Inr False \<longrightarrow>
      Calibration_inverse E c y x0 = Inl AssertionError)"
  by (auto simp: Calibration_inverse_def split: sum.splits if_splits)


lemma linear_call_fixed_root:
  "Calibration_call (fixed_root r) linear_cal (Scalar (Fin v)) =
     (if 0 \<le> v \<and> v \<le> 100000 then Inr (Scalar (Fin (max 0 (min (1 + 2 * v) 100000))))
      else if v < 0 then Inl (CalibrationError BelowDomain)
      else Inl (CalibrationError AboveDomain))"
  by (simp add: Calibration_call_def linear_cal_def fixed_root_def sample_simps min_def max_def)

lemma linear_inverse_x_fixed_root:
  "inverse_x (fixed_root r) linear_cal (Scalar y) None = Inr (Scalar r)"
  by (simp add: inverse_x_def linear_cal_def fixed_root_def)

lemma linear_range_60001:
  "\<not> np_any (outside (item0 (range_c linear_cal)) (item1 (range_c linear_cal)))
       (Scalar (Fin 60001))"
  by (simp add: linear_cal_def DEFAULT_RANGE_def item0_def item1_def np_any_def outside_def)

lemma linear_inverse_right_root:
  "Calibration_inverse (fixed_root (Fin 30000)) linear_cal (Scalar (Fin 60001)) None =
     Inr (Scalar (Fin 30000))"
  by (simp add: Calibration_inverse_def linear_range_60001 linear_inverse_x_fixed_root
      linear_call_fixed_root np_allclose_def np_all_def atol_def rtol_def)

lemma linear_inverse_wrong_root:
  "Calibration_inverse (fixed_root (Fin 5)) linear_cal (Scalar (Fin 60001)) None =
     Inl AssertionError"
  by (simp add: Calibration_inverse_def linear_range_60001 linear_inverse_x_fixed_root
      linear_call_fixed_root np_allclose_def np_all_def atol_def rtol_def)

theorem inverse_is_consistent_witness:
  "Calibration_inverse sample doubling_cal (Scalar (Fin 100000)) None =
     Inr (Scalar (Fin 50000)) \<and>
   Calibration_call sample doubling_cal (Scalar (Fin 50000)) = Inr (Scalar (Fin 100000)) \<and>
   np_allclose (Scalar (Fin 100000)) (Scalar (Fin 100000)) = Inr True \<and>
   Calibration_inverse (fixed_root (Fin 30000)) linear_cal (Scalar (Fin 60001)) None =
     Inr (Scalar (Fin 30000)) \<and>
   inverse_x (fixed_root (Fin 5)) linear_cal (Scalar (Fin 60001)) None = Inr (Scalar (Fin 5)) \<and>
   Calibration_call (fixed_root (Fin 5)) linear_cal (Scalar (Fin 5)) = Inr (Scalar (Fin 11)) \<and>
   np_allclose (Scalar (Fin 11)) (Scalar (Fin 60001)) = Inr False \<and>
   Calibration_inverse (fixed_root (Fin 5)) linear_cal (Scalar (Fin 60001)) None =
     Inl AssertionError"
  using inverse_is_consistent [of sample doubling_cal "Scalar (Fin 100000)" None
      "Scalar (Fin 50000)" "Scalar (Fin 100000)"]
    inverse_is_consistent [of "fixed_root (Fin 5)" linear_cal "Scalar (Fin 60001)" None
      "Scalar (Fin 5)" "Scalar (Fin 11)"]
  by (simp add: doubling_inverse doubling_call linear_call_fixed_root
      linear_inverse_x_fixed_root linear_inverse_right_root linear_inverse_wrong_root
      np_allclose_def np_all_def atol_def rtol_def)

section \<open>Reading a calibration\<close>

lemma read_requires_datasets:
  "k \<in> {''params'', ''expression'', ''domain'', ''range''} \<Longrightarrow> k \<notin> fst ` set dsets \<Longrightarrow>
     \<exists>k'. Calibration_read E dsets file_attrs draw = Inl (CalibrationError (ExpectedDataset k'))"
  by (auto simp: Calibration_read_def Let_def)

lemma read_refuses_unknown_datasets:
  "Calibration_read E dsets file_attrs draw = Inr c \<Longrightarrow> fst ` set dsets \<subseteq> set known_datasets"
  by (auto simp: Calibration_read_def Let_def filter_empty_conv split: if_splits)

lemma stored_file_constructed:
  "Calibration_init sample ''p[0] + p[1] * x'' (Vec [Fin 1, Fin 2]) None (Vec [Fin 0, Fin 100])
     DEFAULT_RANGE [(''range'', H5Arr (Vec [Fin 0, Fin 50]))] sample_draw =
   Inr (linear_cal\<lparr>domain := Vec [Fin 0, Fin 100],
                    attrs := [(''range'', H5Arr (Vec [Fin 0, Fin 50]))]\<rparr>)"
proof -
  have d: "set_domain (Vec [Fin 0, Fin 100]) c = (Inr (), c\<lparr>domain := Vec [Fin 0, Fin 100]\<rparr>)" for c
    by (simp add: set_domain_def validate_domain_range_def item0_def item1_def fgt_def)
  have p: "domain c = Vec [Fin 0, Fin 100] \<Longrightarrow> range_c c = DEFAULT_RANGE \<Longrightarrow>
     set_points sample None None c = (Inr (), c\<lparr>points_x := [], points_y := []\<rparr>)" for c
    by (simp add: set_points_def add_points_def check_points_def take_indices_def
        sample_fields stable_argsort_def DEFAULT_RANGE_def)
  show ?thesis
    by (simp add: Calibration_init_def and_then_def set_expression_def set_params_def
      linear_validated linear_validated_params blank_def set_inv_expression_def
      d set_range_default set_attrs_def p linear_cal_def)
qed

lemma stored_file_points:
  "set_points sample (Some (Vec [])) (Some (Vec []))
     (linear_cal\<lparr>domain := Vec [Fin 0, Fin 100],
                  attrs := [(''range'', H5Arr (Vec [Fin 0, Fin 50]))]\<rparr>) =
   (Inr (), linear_cal\<lparr>domain := Vec [Fin 0, Fin 100],
                       attrs := [(''range'', H5Arr (Vec [Fin 0, Fin 50]))]\<rparr>)"
  by (simp add: set_points_def add_points_def linear_cal_def points_simps)

lemma set_points_keeps:
  "set_points E px py c = (Inr u, c') \<Longrightarrow>
     range_c c' = range_c c \<and> domain c' = domain c \<and> attrs c' = attrs c"
  by (auto simp: set_points_def add_points_def Let_def split: sum.splits prod.splits)

lemma Calibration_init_fields:
  assumes "Calibration_init E e p ie d r a draw = Inr c"
  shows "domain c = d \<and> range_c c = r \<and> attrs c = a"
proof -
  from assms obtain c6 where
    "and_then (and_then (and_then (and_then (and_then (and_then
             (set_expression E e blank)
             (set_params E p draw))
             (set_inv_expression E ie))
             (set_domain d))
             (set_range r))
             (set_attrs a))
             (set_points E None None) = (Inr (), c)"
    by (auto simp: Calibration_init_def split: prod.splits sum.splits)
  then obtain c5 where
    s6: "set_points E None None c5 = (Inr (), c)" and
    r5: "and_then (and_then (and_then (and_then (and_then
             (set_expression E e blank)
             (set_params E p draw))
             (set_inv_expression E ie))
             (set_domain d))
             (set_range r))
             (set_attrs a) = (Inr (), c5)"
    by (blast dest: and_then_Inr)
  then obtain c4 where
    s5: "set_attrs a c4 = (Inr (), c5)" and
    r4: "and_then (and_then (and_then (and_then
             (set_expression E e blank)
             (set_params E p draw))
             (set_inv_expression E ie))
             (set_domain d))
             (set_range r) = (Inr (), c4)"
    by (blast dest: and_then_Inr)
  then obtain c3 where
    s4: "set_range r c3 = (Inr (), c4)" and
    r3: "and_then (and_then (and_then
             (set_expression E e blank)
             (set_params E p draw))
             (set_inv_expression E ie))
             (set_domain d) = (Inr (), c3)"
    by (blast dest: and_then_Inr)
  then obtain c2 where
    s3: "set_domain d c2 = (Inr (), c3)"
    by (blast dest: and_then_Inr)
  from s3 have "domain c3 = d"
    by (auto simp: set_domain_def split: sum.splits)
  with s4 have "domain c4 = d \<and> range_c c4 = r"
    by (auto simp: set_range_def split: sum.splits)
  with s5 have "domain c5 = d \<and> range_c c5 = r \<and> attrs c5 = a"
    by (auto simp: set_attrs_def)
  with set_points_keeps [OF s6] show ?thesis by simp
qed

lemma read_range_is_default:
  assumes "Calibration_read E dsets file_attrs draw = Inr c"
    and "map_of file_attrs ''rng'' = None"
  shows "range_c c = DEFAULT_RANGE \<and> map_of (attrs c) ''range'' = map_of dsets ''range''"
proof -
  from assms(1) have "\<exists>expr ps_ds inv_expr domain_ds range_ds cal.
    getitem dsets ''range'' = Inr range_ds \<and>
    read_call E expr ps_ds inv_expr domain_ds range_ds file_attrs draw = Inr cal \<and>
    (c = cal \<or> (\<exists>px py u. set_points E px py cal = (Inr u, c)))"
    by (simp add: Calibration_read_def Let_def split: if_splits sum.splits prod.splits) blast+
  then obtain expr ps_ds inv_expr domain_ds range_ds cal where
    g: "getitem dsets ''range'' = Inr range_ds" and
    rc: "read_call E expr ps_ds inv_expr domain_ds range_ds file_attrs draw = Inr cal" and
    c: "c = cal \<or> (\<exists>px py u. set_points E px py cal = (Inr u, c))"
    by blast
  from rc assms(2) obtain p d where
    "Calibration_init E expr p inv_expr d DEFAULT_RANGE
       ((''range'', range_ds) # filter (\<lambda>kv. fst kv \<noteq> ''rng'') file_attrs) draw = Inr cal"
    by (auto simp: read_call_def Let_def split: if_splits sum.splits h5val.splits)
  from Calibration_init_fields [OF this]
  have "range_c cal = DEFAULT_RANGE \<and> map_of (attrs cal) ''range'' = Some range_ds"
    by simp
  moreover from g have "map_of dsets ''range'' = Some range_ds"
    by (auto simp: getitem_def split: option.splits)
  ultimately show ?thesis
    using c set_points_keeps by auto
qed

text \<open>
  Claim C9 says that the calibration returned by \<^verbatim>\<open>Calibration.read\<close> has the range
  that was stored. The code does otherwise: for the file \<open>stored_file\<close>, whose dataset
  \<^verbatim>\<open>range\<close> is \<open>[0, 50]\<close>, the calibration returned has the default range
  \<open>[0, 100000]\<close>, and the stored range sits among its attributes under the key
  \<^verbatim>\<open>range\<close>. (The lemmas above give the rest of the claim: a missing required
  dataset and an unknown dataset both make the read fail; and \<open>read_range_is_default\<close>
  shows that the range is lost for every file without an attribute \<^verbatim>\<open>rng\<close>.)
\<close>

theorem read_drops_the_range:
  "Calibration_read sample stored_file [] sample_draw =
     Inr (linear_cal\<lparr>domain := Vec [Fin 0, Fin 100],
                      attrs := [(''range'', H5Arr (Vec [Fin 0, Fin 50]))]\<rparr>) \<and>
   range_c (linear_cal\<lparr>domain := Vec [Fin 0, Fin 100],
                        attrs := [(''range'', H5Arr (Vec [Fin 0, Fin 50]))]\<rparr>) =
     Vec [Fin 0, Fin 100000] \<and>
   getitem stored_file ''range'' = Inr (H5Arr (Vec [Fin 0, Fin 50]))"
  by (simp add: Calibration_read_def stored_file_def known_datasets_def getitem_def
      sample_fields read_call_def bound_twice_def stored_file_constructed stored_file_points)
     (simp add: linear_cal_def DEFAULT_RANGE_def)

section \<open>The point store\<close>

lemma sort_le_total: "sort_le a b \<or> sort_le b a"
  by (cases a; cases b) (auto simp: sort_le_def fle_def)

lemma sort_le_trans: "sort_le a b \<Longrightarrow> sort_le b c \<Longrightarrow> sort_le a c"
  by (cases a; cases b; cases c) (auto simp: sort_le_def fle_def)

lemma mset_insert_index: "mset (insert_index xs i js) = add_mset i (mset js)"
  by (induction js) auto

lemma set_insert_index: "set (insert_index xs i js) = insert i (set js)"
  by (induction js) auto

lemma sorted_insert_index:
  "sorted_wrt sort_le (map (\<lambda>j. xs ! j) js) \<Longrightarrow>
     sorted_wrt sort_le (map (\<lambda>j. xs ! j) (insert_index xs i js))"
proof (induction js)
  case Nil
  then show ?case by simp
next
  case (Cons j js)
  show ?case
  proof (cases "sort_le (xs ! j) (xs ! i)")
    case True
    with Cons show ?thesis
      by (auto simp: set_insert_index)
  next
    case False
    then have "sort_le (xs ! i) (xs ! j)" using sort_le_total by blast
    with Cons.prems False show ?thesis
      by (auto intro: sort_le_trans)
  qed
qed

lemma foldl_insert_index:
  "mset (foldl (\<lambda>acc i. insert_index xs i acc) acc is) = mset acc + mset is \<and>
   (sorted_wrt sort_le (map (\<lambda>j. xs ! j) acc) \<longrightarrow>
      sorted_wrt sort_le (map (\<lambda>j. xs ! j) (foldl (\<lambda>acc i. insert_index xs i acc) acc is)))"
  by (induction "is" arbitrary: acc) (auto simp: mset_insert_index sorted_insert_index)

lemma stable_argsort_spec: "argsort_spec stable_argsort"
  using foldl_insert_index [of _ "[]"]
  by (simp add: argsort_spec_def stable_argsort_def)

lemma take_indices_Inr:
  "take_indices as js = Inr bs \<Longrightarrow> bs = map (\<lambda>i. as ! i) js \<and> (\<forall>i \<in> set js. i < length as)"
  by (auto simp: take_indices_def list_all_iff split: if_splits)

lemma permuted_pairs:
  assumes "mset js = mset [0..<length xs]" and "length ys = length xs"
  shows "mset (zip (map (\<lambda>i. xs ! i) js) (map (\<lambda>i. ys ! i) js)) = mset (zip xs ys)"
proof -
  have "zip (map (\<lambda>i. xs ! i) js) (map (\<lambda>i. ys ! i) js) = map (\<lambda>i. (xs ! i, ys ! i)) js"
    by (induction js) auto
  then have "mset (zip (map (\<lambda>i. xs ! i) js) (map (\<lambda>i. ys ! i) js)) =
      image_mset (\<lambda>i. (xs ! i, ys ! i)) (mset js)"
    by simp
  also have "\<dots> = mset (map (\<lambda>i. (xs ! i, ys ! i)) [0..<length xs])"
    by (simp add: assms(1))
  also have "map (\<lambda>i. (xs ! i, ys ! i)) [0..<length xs] = zip xs ys"
    using assms(2) by (intro nth_equalityI) auto
  finally show ?thesis .
qed

lemma check_points_Inr:
  assumes "argsort_spec (argsort E)" and "check_points E px py dmn rng = Inr (xs', ys')"
  shows "mset (zip xs' ys') = mset (zip (atleast_1d px) (atleast_1d py)) \<and>
         length xs' = length ys' \<and>
         sorted_wrt sort_le xs' \<and>
         (\<exists>dl dh rl rh. bounds dmn = Inr (dl, dh) \<and> bounds rng = Inr (rl, rh) \<and>
            (\<forall>x \<in> set xs'. \<not> outside dl dh x) \<and> (\<forall>y \<in> set ys'. \<not> outside rl rh y))"
proof -
  let ?xs = "atleast_1d px" and ?ys = "atleast_1d py"
  from assms(2) have len: "length ?ys = length ?xs"
    and tx: "take_indices ?xs (argsort E ?xs) = Inr xs'"
    and ty: "take_indices ?ys (argsort E ?xs) = Inr ys'"
    and b: "\<exists>dl dh rl rh. bounds dmn = Inr (dl, dh) \<and> bounds rng = Inr (rl, rh) \<and>
            (\<forall>x \<in> set xs'. \<not> outside dl dh x) \<and> (\<forall>y \<in> set ys'. \<not> outside rl rh y)"
    by (auto simp: check_points_def Let_def list_ex_iff split: if_splits sum.splits prod.splits)
  from assms(1) have m: "mset (argsort E ?xs) = mset [0..<length ?xs]"
    and s: "sorted_wrt sort_le (map (\<lambda>i. ?xs ! i) (argsort E ?xs))"
    by (simp_all add: argsort_spec_def)
  from take_indices_Inr [OF tx] take_indices_Inr [OF ty]
  have x: "xs' = map (\<lambda>i. ?xs ! i) (argsort E ?xs)" and y: "ys' = map (\<lambda>i. ?ys ! i) (argsort E ?xs)"
    by simp_all
  from permuted_pairs [OF m len] x y s b show ?thesis by simp
qed


lemma within_unless_nan:
  "\<not> outside l h v \<Longrightarrow> isfinite l \<Longrightarrow> isfinite h \<Longrightarrow> v \<noteq> NaN \<Longrightarrow> fle l v \<and> fle v h"
  by (cases l; cases h; cases v) (auto simp: outside_def fle_def)

lemma add_points_Inr:
  assumes "argsort_spec (argsort E)" and "add_points E px py c = (Inr (), c')"
    and "length (points_x c) = length (points_y c)"
  shows "mset (zip (points_x c') (points_y c')) =
           mset (zip (points_x c) (points_y c)) + mset (zip (atleast_1d px) (atleast_1d py)) \<and>
         length (points_x c') = length (points_y c') \<and>
         sorted_wrt sort_le (points_x c') \<and>
         (\<exists>dl dh rl rh. bounds (domain c) = Inr (dl, dh) \<and> bounds (range_c c) = Inr (rl, rh) \<and>
            (\<forall>x \<in> set (points_x c'). \<not> outside dl dh x) \<and>
            (\<forall>y \<in> set (points_y c'). \<not> outside rl rh y))"
proof -
  from assms(2) obtain xs ys xs' ys' where
    c1: "check_points E px py (domain c) (range_c c) = Inr (xs, ys)" and
    c2: "check_points E (Some (Vec (points_x c @ xs))) (Some (Vec (points_y c @ ys)))
           (domain c) (range_c c) = Inr (xs', ys')" and
    c': "points_x c' = xs'" "points_y c' = ys'"
    by (auto simp: add_points_def Let_def split: sum.splits prod.splits)
  from check_points_Inr [OF assms(1) c1]
  have n: "mset (zip xs ys) = mset (zip (atleast_1d px) (atleast_1d py))" "length xs = length ys"
    by simp_all
  from check_points_Inr [OF assms(1) c2] assms(3) n c' show ?thesis
    by simp
qed

lemma add_points_refused:
  "check_points E px py (domain c) (range_c c) = Inl err \<Longrightarrow> add_points E px py c = (Inl err, c)"
  by (simp add: add_points_def)

lemma check_points_refuses_outside:
  assumes "argsort_spec (argsort E)" and "bounds dmn = Inr (dl, dh)"
    and "length (atleast_1d px) = length (atleast_1d py)"
    and "list_ex (outside dl dh) (atleast_1d px)"
  shows "\<exists>err. check_points E px py dmn rng = Inl err"
proof (cases "check_points E px py dmn rng")
  case (Inl err)
  then show ?thesis by blast
next
  case (Inr r)
  obtain xs' ys' where r: "r = (xs', ys')" by (cases r)
  from check_points_Inr [OF assms(1) Inr [unfolded r]] assms(2)
  have m: "mset (zip xs' ys') = mset (zip (atleast_1d px) (atleast_1d py))"
    and l: "length xs' = length ys'" and o: "\<forall>x \<in> set xs'. \<not> outside dl dh x"
    by auto
  from m have "mset (map fst (zip xs' ys')) = mset (map fst (zip (atleast_1d px) (atleast_1d py)))"
    by (metis mset_map)
  with l assms(3) have "mset xs' = mset (atleast_1d px)" by simp
  then have "set xs' = set (atleast_1d px)" by (rule mset_eq_setD)
  with o assms(4) show ?thesis by (auto simp: list_ex_iff)
qed

lemma sort_invariant_example:
  "add_points sample (Some (Vec [Fin 3, Fin 1])) (Some (Vec [Fin 30, Fin 10])) linear_cal =
     (Inr (), linear_cal\<lparr>points_x := [Fin 1, Fin 3], points_y := [Fin 10, Fin 30]\<rparr>) \<and>
   add_points sample (Some (Vec [Fin 2])) (Some (Vec [Fin 20]))
       (linear_cal\<lparr>points_x := [Fin 1, Fin 3], points_y := [Fin 10, Fin 30]\<rparr>) =
     (Inr (), linear_cal\<lparr>points_x := [Fin 1, Fin 2, Fin 3],
                         points_y := [Fin 10, Fin 20, Fin 30]\<rparr>)"
  by (simp add: add_points_def linear_cal_def points_simps)

text \<open>
  Claim C5 says that every stored x lies within the domain and that a violation raises
  instead of being stored. For numbers this holds (\<open>add_points_Inr\<close>,
  \<open>within_unless_nan\<close>, \<open>check_points_refuses_outside\<close>, and the example of the claim
  in \<open>sort_invariant_example\<close>), but the test of \<^verbatim>\<open>_check_points\<close>, "some value is
  below the lower bound or above the upper bound", is false for NaN: on the linear
  calibration with the default domain, \<^verbatim>\<open>add_points([nan], [1.0])\<close> returns normally
  and stores the point, although NaN is neither at least 0 nor at most 100000. The
  evaluation of the same calibration at NaN, whose test is "not every value is at least
  the lower bound", raises.
\<close>

theorem nan_point_is_stored:
  "add_points sample (Some (Vec [NaN])) (Some (Vec [Fin 1])) linear_cal =
     (Inr (), linear_cal\<lparr>points_x := [NaN], points_y := [Fin 1]\<rparr>) \<and>
   domain linear_cal = Vec [Fin 0, Fin 100000] \<and>
   \<not> fle (Fin 0) NaN \<and> \<not> fle NaN (Fin 100000) \<and>
   Calibration_call sample linear_cal (Vec [NaN]) = Inl (CalibrationError BelowDomain)"
  by (simp add: add_points_def linear_cal_def points_simps Calibration_call_def
      eval_expression_def validate_domain_range_def item0_def item1_def fgt_def fge_def
      np_all_def)

section \<open>Failing mutations\<close>

lemma bounds_items: "bounds d = Inr (l, h) \<Longrightarrow> l = item0 d \<and> h = item1 d"
  by (cases d) (auto simp: item0_def item1_def split: if_splits)

lemma take_indices_argsort:
  assumes "argsort_spec (argsort E)" and "length ys = length xs"
  shows "take_indices ys (argsort E xs) = Inr (map (\<lambda>i. ys ! i) (argsort E xs)) \<and>
         set (map (\<lambda>i. ys ! i) (argsort E xs)) = set ys"
proof -
  from assms(1) have "mset (argsort E xs) = mset [0..<length xs]"
    by (simp add: argsort_spec_def)
  then have "set (argsort E xs) = set [0..<length xs]"
    by (rule mset_eq_setD)
  then have s: "set (argsort E xs) = {0..<length ys}"
    using assms(2) by simp
  then have t: "take_indices ys (argsort E xs) = Inr (map (\<lambda>i. ys ! i) (argsort E xs))"
    by (simp add: take_indices_def list_all_iff)
  have "set (map (\<lambda>i. ys ! i) (argsort E xs)) = (\<lambda>i. ys ! i) ` {0..<length ys}"
    using s by simp
  also have "\<dots> = set ys"
    using nth_image [of "length ys" ys] by simp
  finally show ?thesis using t by simp
qed

lemma check_points_succeeds:
  assumes "argsort_spec (argsort E)"
    and "length (atleast_1d px) = length (atleast_1d py)"
    and "bounds dmn = Inr (dl, dh)" and "bounds rng = Inr (rl, rh)"
    and "\<not> list_ex (outside dl dh) (atleast_1d px)"
    and "\<not> list_ex (outside rl rh) (atleast_1d py)"
  shows "\<exists>r. check_points E px py dmn rng = Inr r"
proof -
  let ?xs = "atleast_1d px" and ?ys = "atleast_1d py"
  let ?is = "argsort E ?xs"
  from take_indices_argsort [OF assms(1), of ?xs ?xs]
  have x: "take_indices ?xs ?is = Inr (map (\<lambda>i. ?xs ! i) ?is)"
    and sx: "set (map (\<lambda>i. ?xs ! i) ?is) = set ?xs"
    by simp_all
  from take_indices_argsort [OF assms(1), of ?ys ?xs] assms(2)
  have y: "take_indices ?ys ?is = Inr (map (\<lambda>i. ?ys ! i) ?is)"
    and sy: "set (map (\<lambda>i. ?ys ! i) ?is) = set ?ys"
    by simp_all
  from assms(5) sx have ox: "\<not> list_ex (outside dl dh) (map (\<lambda>i. ?xs ! i) ?is)"
    unfolding list_ex_iff by blast
  from assms(6) sy have oy: "\<not> list_ex (outside rl rh) (map (\<lambda>i. ?ys ! i) ?is)"
    unfolding list_ex_iff by blast
  have "check_points E px py dmn rng = Inr (map (\<lambda>i. ?xs ! i) ?is, map (\<lambda>i. ?ys ! i) ?is)"
    unfolding check_points_def Let_def
    using ox oy by (simp add: assms(2) x y assms(3) assms(4))
  then show ?thesis by blast
qed

lemma add_points_failed:
  assumes "argsort_spec (argsort E)" and "valid_store c"
    and "add_points E px py c = (Inl err, c')"
  shows "c' = c"
proof (cases "check_points E px py (domain c) (range_c c)")
  case (Inl e)
  with assms(3) show ?thesis by (simp add: add_points_def)
next
  case (Inr r)
  obtain xs ys where r: "r = (xs, ys)" by (cases r)
  from check_points_Inr [OF assms(1) Inr [unfolded r]] obtain dl dh rl rh where
    l: "length xs = length ys" and
    b: "bounds (domain c) = Inr (dl, dh)" "bounds (range_c c) = Inr (rl, rh)" and
    o: "\<forall>x \<in> set xs. \<not> outside dl dh x" "\<forall>y \<in> set ys. \<not> outside rl rh y"
    by blast
  from bounds_items [OF b(1)] bounds_items [OF b(2)] assms(2)
  have v: "length (points_x c) = length (points_y c)"
    "\<not> list_ex (outside dl dh) (points_x c)" "\<not> list_ex (outside rl rh) (points_y c)"
    by (simp_all add: valid_store_def)
  have len: "length (atleast_1d (Some (Vec (points_x c @ xs)))) =
      length (atleast_1d (Some (Vec (points_y c @ ys))))"
    using v(1) l by simp
  have ox: "\<not> list_ex (outside dl dh) (atleast_1d (Some (Vec (points_x c @ xs))))"
    using v(2) o(1) by (auto simp: list_ex_iff)
  have oy: "\<not> list_ex (outside rl rh) (atleast_1d (Some (Vec (points_y c @ ys))))"
    using v(3) o(2) by (auto simp: list_ex_iff)
  from check_points_succeeds [OF assms(1) len b ox oy] obtain r' where
    "check_points E (Some (Vec (points_x c @ xs))) (Some (Vec (points_y c @ ys)))
          (domain c) (range_c c) = Inr r'"
    by blast
  with assms(3) Inr r have False
    by (simp add: add_points_def Let_def split: prod.splits)
  then show ?thesis ..
qed

lemma add_points_valid_store:
  assumes "argsort_spec (argsort E)" and "add_points E px py c = (Inr (), c')"
    and "length (points_x c) = length (points_y c)"
  shows "valid_store c'"
proof -
  from assms(2) have d: "domain c' = domain c" "range_c c' = range_c c"
    by (auto simp: add_points_def Let_def split: sum.splits prod.splits)
  from add_points_Inr [OF assms] obtain dl dh rl rh where
    l: "length (points_x c') = length (points_y c')" and
    b: "bounds (domain c) = Inr (dl, dh)" "bounds (range_c c) = Inr (rl, rh)" and
    o: "\<forall>x \<in> set (points_x c'). \<not> outside dl dh x"
       "\<forall>y \<in> set (points_y c'). \<not> outside rl rh y"
    by blast
  from bounds_items [OF b(1)] bounds_items [OF b(2)]
  have "dl = item0 (domain c')" "dh = item1 (domain c')"
    "rl = item0 (range_c c')" "rh = item1 (range_c c')"
    by (simp_all add: d)
  with l o show ?thesis
    by (simp add: valid_store_def list_ex_iff)
qed

lemma one_point_added:
  "add_points sample (Some (Vec [Fin 1])) (Some (Vec [Fin 10])) linear_cal = (Inr (), one_point_cal)"
  by (simp add: add_points_def linear_cal_def one_point_cal_def points_simps)

lemma one_point_valid: "valid_store one_point_cal"
  by (simp add: valid_store_def one_point_cal_def linear_cal_def DEFAULT_DOMAIN_def
      DEFAULT_RANGE_def item0_def item1_def outside_def)

lemma far_point_refused:
  "add_points sample (Some (Vec [Fin 200000])) (Some (Vec [Fin 5])) one_point_cal =
     (Inl (CalibrationError XOutsideDomain), one_point_cal)"
  by (simp add: add_points_def linear_cal_def one_point_cal_def points_simps)

text \<open>
  \<^verbatim>\<open>set_points\<close> is documented to remove the existing points before it sets the new
  ones: when it refuses its arguments, the store is left empty.
\<close>

lemma set_points_replaces_store:
  "set_points sample (Some (Vec [Fin 1])) (Some (Vec [Fin 1, Fin 2])) one_point_cal =
     (Inl (CalibrationError (PointsLengthMismatch 1 2)), linear_cal)"
  by (simp add: set_points_def add_points_def linear_cal_def one_point_cal_def points_simps)

lemma one_point_fields:
  "expression one_point_cal = ''p[0] + p[1] * x''" "params one_point_cal = [Fin 1, Fin 2]"
  "domain one_point_cal = DEFAULT_DOMAIN" "range_c one_point_cal = DEFAULT_RANGE"
  "points_x one_point_cal = [Fin 1]" "points_y one_point_cal = [Fin 10]"
  by (simp_all add: one_point_cal_def linear_cal_def)

lemma one_point_checked:
  "check_points sample (Some (Vec [Fin 1])) (Some (Vec [Fin 10])) DEFAULT_DOMAIN DEFAULT_RANGE =
     Inr ([Fin 1], [Fin 10])"
  by (simp add: points_simps)

lemma linear_fit_one_point:
  "fit_expression sample ''p[0] + p[1] * x'' (Some (Vec [Fin 1])) (Some (Vec [Fin 10]))
     (Some (Vec [Fin 1, Fin 2])) DEFAULT_DOMAIN DEFAULT_RANGE sample_draw =
     Inl (CalibrationError (NotEnoughPoints 2 1))"
  by (simp add: fit_expression_def linear_validated one_point_checked linear_indices
      linear_validated_params)

lemma one_point_refusals:
  "set_expression sample ''p[0] + p[2] * x'' one_point_cal =
     (Inl (CalibrationError IndicesNotContiguous), one_point_cal)"
  "set_params sample (Vec [Fin 1]) sample_draw one_point_cal =
     (Inl (CalibrationError ParamCountMismatch), one_point_cal)"
  "set_domain (Vec [Fin 1, Fin 0]) one_point_cal =
     (Inl (CalibrationError DomainNotAscending), one_point_cal)"
  "fit sample sample_draw sample_draw one_point_cal =
     (Inl (CalibrationError (NotEnoughPoints 2 1)), one_point_cal)"
  by (simp_all add: set_expression_def gap_refused set_params_def one_point_fields
      linear_one_param_refused fit_def linear_fit_one_point set_domain_def
      validate_domain_range_def item0_def item1_def fgt_def)

lemma sample_argsort_spec: "argsort_spec (argsort sample)"
  by (simp add: sample_fields stable_argsort_spec)

text \<open>
  Claim C8. When the setter of the expression or of the parameters raises, the object is
  left as it was before the call, and so it is when \<^verbatim>\<open>fit\<close> raises, whatever the
  reason (validation, too few points, the solver). The same holds of the setters of the
  inverse expression, the domain and the range, and of \<^verbatim>\<open>add_points\<close> on a valid
  store, for every \<^verbatim>\<open>np.argsort\<close> that meets NumPy's contract. The constructor returns
  an object only when the expression has been validated and the parameters have been
  validated against it; otherwise it raises and the caller has no object.
\<close>

theorem failed_mutation_keeps_state:
  "(set_expression E e c = (Inl err, c') \<longrightarrow> c' = c) \<and>
   (set_params E p draw c = (Inl err, c') \<longrightarrow> c' = c) \<and>
   (set_inv_expression E ie c = (Inl err, c') \<longrightarrow> c' = c) \<and>
   (set_domain d c = (Inl err, c') \<longrightarrow> c' = c) \<and>
   (set_range r c = (Inl err, c') \<longrightarrow> c' = c) \<and>
   (fit E draw1 draw2 c = (Inl err, c') \<longrightarrow> c' = c) \<and>
   (argsort_spec (argsort E) \<and> valid_store c \<and> add_points E px py c = (Inl err, c') \<longrightarrow>
      c' = c) \<and>
   (Calibration_init E e p ie d r a draw = Inr c \<longrightarrow>
      (\<exists>ps. p = Vec ps \<and> params c = ps \<and>
        validate_expression E e None ''x'' DEFAULT_DOMAIN DEFAULT_RANGE no_draw
          = Inr (expression c) \<and>
        (\<exists>e'. validate_expression E (expression c) (Some ps) ''x'' DEFAULT_DOMAIN DEFAULT_RANGE
                draw = Inr e')))"
proof (intro conjI impI)
  assume "set_expression E e c = (Inl err, c')"
  then show "c' = c" by (rule set_expression_failed)
next
  assume "set_params E p draw c = (Inl err, c')"
  then show "c' = c" by (rule set_params_failed)
next
  assume "set_inv_expression E ie c = (Inl err, c')"
  then show "c' = c" by (rule set_inv_expression_failed)
next
  assume "set_domain d c = (Inl err, c')"
  then show "c' = c" by (rule set_domain_failed)
next
  assume "set_range r c = (Inl err, c')"
  then show "c' = c" by (rule set_range_failed)
next
  assume "fit E draw1 draw2 c = (Inl err, c')"
  then show "c' = c" by (rule fit_failed)
next
  assume "argsort_spec (argsort E) \<and> valid_store c \<and> add_points E px py c = (Inl err, c')"
  then show "c' = c" by (blast intro: add_points_failed)
next
  assume "Calibration_init E e p ie d r a draw = Inr c"
  from Calibration_init_Inr [OF this]
  show "\<exists>ps. p = Vec ps \<and> params c = ps \<and>
        validate_expression E e None ''x'' DEFAULT_DOMAIN DEFAULT_RANGE no_draw
          = Inr (expression c) \<and>
        (\<exists>e'. validate_expression E (expression c) (Some ps) ''x'' DEFAULT_DOMAIN DEFAULT_RANGE
                draw = Inr e')"
    by blast
qed

theorem failed_mutation_keeps_state_witness:
  "set_expression sample ''p[0] + p[2] * x'' one_point_cal =
     (Inl (CalibrationError IndicesNotContiguous), one_point_cal) \<and>
   set_params sample (Vec [Fin 1]) sample_draw one_point_cal =
     (Inl (CalibrationError ParamCountMismatch), one_point_cal) \<and>
   set_domain (Vec [Fin 1, Fin 0]) one_point_cal =
     (Inl (CalibrationError DomainNotAscending), one_point_cal) \<and>
   fit sample sample_draw sample_draw one_point_cal =
     (Inl (CalibrationError (NotEnoughPoints 2 1)), one_point_cal) \<and>
   argsort_spec (argsort sample) \<and> valid_store one_point_cal \<and>
   add_points sample (Some (Vec [Fin 200000])) (Some (Vec [Fin 5])) one_point_cal =
     (Inl (CalibrationError XOutsideDomain), one_point_cal) \<and>
   Calibration_init sample ''p[0] + p[1] * x'' (Vec [Fin 1, Fin 2]) None DEFAULT_DOMAIN
     DEFAULT_RANGE [] sample_draw = Inr linear_cal \<and>
   Calibration_init sample ''p[0] + p[2] * x'' (Vec [Fin 1, Fin 2]) None DEFAULT_DOMAIN
     DEFAULT_RANGE [] sample_draw = Inl (CalibrationError IndicesNotContiguous)"
  using failed_mutation_keeps_state [where E = sample and e = "''p[0] + p[2] * x''"
      and c = one_point_cal and c' = one_point_cal
      and err = "CalibrationError IndicesNotContiguous"
      and p = "Vec [Fin 1]" and draw = sample_draw and ?draw1.0 = sample_draw
      and ?draw2.0 = sample_draw and ie = None and d = "Vec [Fin 1, Fin 0]"
      and r = DEFAULT_RANGE and a = "[]" and px = "Some (Vec [Fin 200000])"
      and py = "Some (Vec [Fin 5])"]
    failed_mutation_keeps_state [where E = sample and e = "''p[0] + p[1] * x''"
      and c = one_point_cal and c' = one_point_cal
      and err = "CalibrationError XOutsideDomain"
      and p = "Vec [Fin 1, Fin 2]" and draw = sample_draw and ?draw1.0 = sample_draw
      and ?draw2.0 = sample_draw and ie = None and d = DEFAULT_DOMAIN and r = DEFAULT_RANGE
      and a = "[]" and px = "Some (Vec [Fin 200000])" and py = "Some (Vec [Fin 5])"]
  by (simp add: one_point_refusals sample_argsort_spec one_point_valid far_point_refused
      linear_cal_built gap_not_built)

end
